theory Spec2Isabelle
  imports Complex_Main
begin

section \<open>Fused attention: data model\<close>

text \<open>
  The development embeds \<^verbatim>\<open>jax/_src/cudnn/fused_attention_stablehlo.py\<close>.
  Python exceptions are values of the type \<open>error\<close>; a function that may raise returns
  \<open>error + 'a\<close> with \<open>Inl\<close> for the exception. The string of an exception is the fixed
  part of the source's message (interpolated values are left out).
\<close>

datatype error =
    ValueError string
  | NotImplementedError string
  | RuntimeError string
  | TypeError string
  | KeyError string
  | IndexError
  | AttributeError
  | AssertionError

datatype AttentionLayout = BTNH | BNTH

fun layout_value :: "AttentionLayout \<Rightarrow> int" where
  "layout_value BTNH = 0"
| "layout_value BNTH = 1"

datatype MaskType = NO_MASK | PADDING | CAUSAL | PADDING_CAUSAL | ALIBI

text \<open>The array dtypes that the source distinguishes (\<open>jnp.bfloat16\<close>, \<open>jnp.float16\<close>,
  \<open>jnp.int32\<close>, \<open>jnp.bool\<close>) and two that it rejects.\<close>

datatype dtype = BFloat16 | Float16 | Float32 | Float64 | Int32 | Int64 | Bool

text \<open>An array as far as the validation code reads it: its shape and its dtype.\<close>

record array =
  shape :: "nat list"
  dtype :: dtype

fun convert_mask_type_to_string :: "MaskType \<Rightarrow> string" where
  "convert_mask_type_to_string NO_MASK = ''NO_MASK''"
| "convert_mask_type_to_string PADDING = ''PADDING''"
| "convert_mask_type_to_string CAUSAL = ''CAUSAL''"
| "convert_mask_type_to_string PADDING_CAUSAL = ''PADDING_CAUSAL''"
| "convert_mask_type_to_string ALIBI = ''ALIBI''"

definition has_padding :: "MaskType \<Rightarrow> bool" where
  "has_padding mask_type \<longleftrightarrow> mask_type = PADDING \<or> mask_type = PADDING_CAUSAL"

subsection \<open>Large negative number for boolean masks\<close>

text \<open>
  \<^verbatim>\<open>jnp.asarray(-2 << 40, dtype=dtype)\<close>: Python parses \<^verbatim>\<open>-2 << 40\<close> as
  \<^verbatim>\<open>(-2) << 40\<close>, a left shift of the integer \<open>-2\<close>. The model returns that integer; both
  results are powers of two inside the range of their float format, so the conversion
  to the dtype keeps them exactly.
\<close>

definition get_large_negative_number :: "dtype \<Rightarrow> error + int" where
  "get_large_negative_number dt =
     (if dt = BFloat16 then Inr (push_bit 40 (- 2))
      else if dt = Float16 then Inr (push_bit 14 (- 2))
      else Inl (ValueError ''Unsupported dtype for inputs.''))"

text \<open>
  \<^verbatim>\<open>jnp.where(mask, jnp.asarray(0, query.dtype), large_negative_number)\<close> on the
  elements of a boolean mask, in any fixed order of the elements.
\<close>

definition bool_mask_to_additive :: "dtype \<Rightarrow> bool list \<Rightarrow> error + int list" where
  "bool_mask_to_additive query_dtype mask_elems =
     (case get_large_negative_number query_dtype of
        Inl e \<Rightarrow> Inl e
      | Inr large_negative_number \<Rightarrow>
          Inr (map (\<lambda>m. if m then 0 else large_negative_number) mask_elems))"

subsection \<open>Layout strings\<close>

text \<open>
  \<^verbatim>\<open>str.upper\<close> and \<^verbatim>\<open>str.replace("S", "T")\<close> on ASCII text: the letters a to z
  become A to Z and every other character stays.
\<close>

definition upper_char :: "char \<Rightarrow> char" where
  "upper_char c =
     (let n = (of_char c :: nat) in if 97 \<le> n \<and> n \<le> 122 then char_of (n - 32) else c)"

definition upper :: "string \<Rightarrow> string" where
  "upper s = map upper_char s"

definition replace_S_T :: "string \<Rightarrow> string" where
  "replace_S_T s = map (\<lambda>c. if c = CHR ''S'' then CHR ''T'' else c) s"

text \<open>\<^verbatim>\<open>AttentionLayout[name]\<close>: the enumeration member of that name, or KeyError.\<close>

definition AttentionLayout_of_name :: "string \<Rightarrow> error + AttentionLayout" where
  "AttentionLayout_of_name name =
     (if name = ''BTNH'' then Inr BTNH
      else if name = ''BNTH'' then Inr BNTH
      else Inl (KeyError name))"

definition normalize_layout :: "string \<Rightarrow> error + AttentionLayout" where
  "normalize_layout layout =
     (let layout_upper = upper layout in
      if layout_upper \<in> set [''BSNH'', ''BNSH'', ''BTNH'', ''BNTH'']
      then AttentionLayout_of_name (replace_S_T layout_upper)
      else Inl (ValueError ''Unsupported qkv_layout''))"

subsection \<open>Sequencing of checks\<close>

text \<open>A raised exception ends the function: \<open>and_then\<close> runs the rest only on success.\<close>

definition and_then :: "error + 'a \<Rightarrow> ('a \<Rightarrow> error + 'b) \<Rightarrow> error + 'b" where
  "and_then r f = (case r of Inl e \<Rightarrow> Inl e | Inr x \<Rightarrow> f x)"

text \<open>Tuple unpacking \<^verbatim>\<open>a, b, c, d = shape\<close> raises ValueError unless the
  shape has exactly four entries.\<close>

fun unpack4 :: "nat list \<Rightarrow> error + (nat \<times> nat \<times> nat \<times> nat)" where
  "unpack4 [a, b, c, d] = Inr (a, b, c, d)"
| "unpack4 _ = Inl (ValueError ''unpack'')"

subsection \<open>Bias gradient export\<close>

text \<open>
  The \<open>layout\<close> argument of \<open>should_export_dbias\<close> is compared with
  \<^verbatim>\<open>AttentionLayout.BNTH.value\<close>, an integer. The callers pass either a member of
  the enumeration or its integer value; a member of a plain \<^verbatim>\<open>enum.Enum\<close> is
  never equal to an integer.
\<close>

datatype layout_arg = LayoutEnum AttentionLayout | LayoutInt int

fun layout_arg_eq_int :: "layout_arg \<Rightarrow> int \<Rightarrow> bool" where
  "layout_arg_eq_int (LayoutEnum l) i = False"
| "layout_arg_eq_int (LayoutInt j) i = (j = i)"

definition should_export_dbias :: "nat list \<Rightarrow> nat list \<Rightarrow> layout_arg \<Rightarrow> error + bool" where
  "should_export_dbias bias_shape query_shape layout =
     and_then (unpack4 bias_shape) (\<lambda>(b_B, b_N, _, _).
     and_then (if layout_arg_eq_int layout (layout_value BNTH)
               then and_then (unpack4 query_shape) (\<lambda>(_, q_N, _, _). Inr q_N)
               else and_then (unpack4 query_shape) (\<lambda>(_, _, q_N, _). Inr q_N)) (\<lambda>q_N.
     Inr (b_B = 1 \<and> b_N = q_N)))"

subsection \<open>Shape and dtype validation\<close>

definition check_eq :: "'a \<Rightarrow> 'a \<Rightarrow> 'a \<Rightarrow> string \<Rightarrow> error + unit" where
  "check_eq a b c msg =
     (if \<not> (a = b \<and> b = c) then Inl (ValueError (msg @ '' must be same'')) else Inr ())"

definition check_layout ::
  "array \<Rightarrow> array \<Rightarrow> array \<Rightarrow> array option \<Rightarrow> array option \<Rightarrow> array option \<Rightarrow>
   AttentionLayout \<Rightarrow> error + unit" where
  "check_layout query key value bias q_seqlen kv_seqlen layout =
     (let q_rank = length (shape query); k_rank = length (shape key);
          v_rank = length (shape value) in
      if q_rank \<noteq> 4 then Inl (ValueError ''Q must have a rank of 4'')
      else and_then (check_eq q_rank k_rank v_rank ''QKV rank'') (\<lambda>_.
      if dtype query \<notin> set [BFloat16, Float16]
      then Inl (NotImplementedError ''Q must be fp16 or bf16'')
      else and_then (check_eq (dtype query) (dtype key) (dtype value) ''QKV dtype'') (\<lambda>_.
      and_then (unpack4 (shape query)) (\<lambda>(q0, q1, q2, q3).
      and_then (unpack4 (shape key)) (\<lambda>(k0, k1, k2, k3).
      and_then (unpack4 (shape value)) (\<lambda>(v0, v1, v2, v3).
      let (qB, qN, qT, qH) = (if layout = BNTH then (q0, q1, q2, q3) else (q0, q2, q1, q3));
          (kB, kN, kS, kH) = (if layout = BNTH then (k0, k1, k2, k3) else (k0, k2, k1, k3));
          (vB, vN, vS, vH) = (if layout = BNTH then (v0, v1, v2, v3) else (v0, v2, v1, v3)) in
      and_then (check_eq qB kB vB ''QKV batch'') (\<lambda>_.
      and_then (check_eq qH kH vH ''QKV dim_per_head'') (\<lambda>_.
      if kN \<noteq> vN then Inl (ValueError ''KV must have same number of heads'')
      else if kS \<noteq> vS then Inl (ValueError ''KV must have same seq length'')
      else
      and_then (case bias of
                  None \<Rightarrow> Inr ()
                | Some b \<Rightarrow>
                    and_then (unpack4 (shape b)) (\<lambda>(_, _, bT, bS).
                    if bT \<noteq> qT \<or> bS \<noteq> vS
                    then Inl (ValueError ''Bias must have same seq length as QKV'')
                    else Inr ())) (\<lambda>_.
      and_then (case q_seqlen of
                  None \<Rightarrow> Inr ()
                | Some a \<Rightarrow>
                    if dtype a \<noteq> Int32
                    then Inl (ValueError ''q_seqlen must have int32 datatype'')
                    else if length (shape a) \<noteq> 1
                    then Inl (ValueError ''q_seqlen must have a rank of 1'')
                    else if hd (shape a) \<noteq> qB
                    then Inl (ValueError ''q_seqlen must have same batch as Q'')
                    else Inr ()) (\<lambda>_.
      (case kv_seqlen of
         None \<Rightarrow> Inr ()
       | Some a \<Rightarrow>
           if dtype a \<noteq> Int32
           then Inl (ValueError ''kv_seqlen must have int32 datatype'')
           else if length (shape a) \<noteq> 1
           then Inl (ValueError ''kv_seq_rank must have a rank of 1'')
           else if hd (shape a) \<noteq> qB
           then Inl (ValueError ''kv_seqlen must have same batch as Q'')
           else Inr ())))))))))))"

text \<open>Here \<open>layout\<close> is the integer value of the layout, as the primitives carry it.\<close>

definition check_is_flash_attention ::
  "array \<Rightarrow> array \<Rightarrow> int \<Rightarrow> int \<Rightarrow> bool \<Rightarrow> bool \<Rightarrow> error + unit" where
  "check_is_flash_attention query key layout cudnn_version has_bias is_training =
     and_then (unpack4 (shape query)) (\<lambda>(_, q1, q2, H).
     and_then (unpack4 (shape key)) (\<lambda>(_, k1, k2, _).
     let T = (if layout = layout_value BNTH then q2 else q1);
         S = (if layout = layout_value BNTH then k2 else k1) in
     if \<not> ((H \<le> 128 \<and> H mod 8 = 0) \<and>
            (\<not> is_training \<or> \<not> has_bias \<or> T mod 2 = 0 \<and> S mod 2 = 0))
     then Inl (NotImplementedError ''Unsupported sequence length Q, KV and head dim'')
     else if cudnn_version < 8904
     then Inl (RuntimeError ''JAX requires cuDNN >= 8.9.4 to use flash cross attention.'')
     else Inr ()))"

subsection \<open>Primitive calls\<close>

text \<open>
  The values that the operator passes to a primitive as keyword parameters, and a call
  of a primitive: its operands and its keyword parameters in the order of the source.
\<close>

datatype pyval =
    PNone
  | PBool bool
  | PInt int
  | PFloat real
  | PMaskType MaskType
  | PTuple "pyval list"

record primitive_call =
  operands :: "array list"
  params :: "(string \<times> pyval) list"

fun int_or_none :: "int option \<Rightarrow> pyval" where
  "int_or_none None = PNone"
| "int_or_none (Some n) = PInt n"

subsection \<open>The user-facing operator\<close>

text \<open>
  What the operator reads from its surroundings: the cuDNN version
  (\<open>None\<close> when \<^verbatim>\<open>cuda_versions\<close> is missing), the result of
  \<^verbatim>\<open>check_compute_capability("8.0")\<close>, and the result dtype of adding two arrays.
\<close>

record env =
  cuda_versions :: "int option"
  compute_capability_8_0 :: bool
  result_dtype :: "dtype \<Rightarrow> dtype \<Rightarrow> dtype"

definition check_cudnn_version :: "env \<Rightarrow> error + int" where
  "check_cudnn_version ev =
     (case cuda_versions ev of
        None \<Rightarrow> Inl (RuntimeError ''cuDNN is not detected.'')
      | Some v \<Rightarrow> Inr v)"

text \<open>\<^verbatim>\<open>a.reshape((1,) * (4 - len(a.shape)) + a.shape)\<close>; a repetition count
  below zero gives the empty tuple.\<close>

definition reshape_to_4d :: "array \<Rightarrow> array" where
  "reshape_to_4d a = a\<lparr>shape := replicate (4 - length (shape a)) 1 @ shape a\<rparr>"

text \<open>Broadcasting of two shapes, aligned at their last axes, on the reversed shapes.\<close>

fun broadcast_rev :: "nat list \<Rightarrow> nat list \<Rightarrow> nat list option" where
  "broadcast_rev [] ys = Some ys"
| "broadcast_rev xs [] = Some xs"
| "broadcast_rev (x # xs) (y # ys) =
     (if x = y \<or> y = 1 then map_option ((#) x) (broadcast_rev xs ys)
      else if x = 1 then map_option ((#) y) (broadcast_rev xs ys)
      else None)"

definition add_arrays :: "env \<Rightarrow> array \<Rightarrow> array \<Rightarrow> error + array" where
  "add_arrays ev a b =
     (case broadcast_rev (rev (shape a)) (rev (shape b)) of
        None \<Rightarrow> Inl (TypeError ''add got incompatible shapes for broadcasting'')
      | Some r \<Rightarrow> Inr \<lparr>shape = rev r, dtype = result_dtype ev (dtype a) (dtype b)\<rparr>)"

text \<open>
  The part of \<open>dot_product_attention\<close> that folds the mask into the bias: a boolean mask
  becomes an array of the query's dtype holding 0 and the large negative number, both
  arrays are reshaped to four axes, and the two are added when both are present.
\<close>

definition fold_mask_into_bias ::
  "env \<Rightarrow> array \<Rightarrow> array option \<Rightarrow> array option \<Rightarrow> error + array option" where
  "fold_mask_into_bias ev query bias mask_arr =
     (let bias = map_option reshape_to_4d bias in
      and_then (case mask_arr of
                  None \<Rightarrow> Inr None
                | Some m \<Rightarrow>
                    and_then (if dtype m = Bool
                              then and_then (get_large_negative_number (dtype query))
                                     (\<lambda>_. Inr (m\<lparr>dtype := dtype query\<rparr>))
                              else Inr m) (\<lambda>m. Inr (Some (reshape_to_4d m)))) (\<lambda>mask_arr.
      case bias of
        None \<Rightarrow> Inr mask_arr
      | Some b \<Rightarrow>
          (case mask_arr of
             None \<Rightarrow> Inr (Some b)
           | Some m \<Rightarrow> and_then (add_arrays ev b m) (\<lambda>s. Inr (Some s)))))"

text \<open>
  \<open>_dot_product_attention\<close> calls \<open>_dot_product_attention_fwd\<close>, which checks the flash
  attention conditions and binds the forward primitive. Its argument \<open>bias\<close> is always
  an array at this point, so \<^verbatim>\<open>bias is not None\<close> is true.
\<close>

definition dot_product_attention_fwd ::
  "array \<Rightarrow> array \<Rightarrow> array \<Rightarrow> array \<Rightarrow> array \<Rightarrow> array \<Rightarrow> real \<Rightarrow> int \<Rightarrow> real \<Rightarrow>
   bool \<times> bool \<Rightarrow> MaskType \<Rightarrow> int \<Rightarrow> int option \<Rightarrow> int \<Rightarrow> error + primitive_call" where
  "dot_product_attention_fwd query key value bias q_seqlen kv_seqlen scale seed dropout_rate
     variadic_args mask_type layout sliding_window_length cudnn_version =
     and_then (check_is_flash_attention query key layout cudnn_version True False) (\<lambda>_.
     Inr \<lparr>operands = [query, key, value, bias, q_seqlen, kv_seqlen],
          params = [(''scale'', PFloat scale), (''seed'', PInt seed),
                    (''dropout_rate'', PFloat dropout_rate),
                    (''variadic_args'', PTuple [PBool (fst variadic_args), PBool (snd variadic_args)]),
                    (''mask_type'', PMaskType mask_type), (''layout'', PInt layout),
                    (''sliding_window_length'', int_or_none sliding_window_length),
                    (''is_training'', PBool False)]\<rparr>)"

text \<open>
  The operator, up to the primitive call that it dispatches. The call of
  \<open>should_export_dbias\<close> receives the member of the enumeration, the call of
  \<open>_dot_product_attention\<close> its integer value.
\<close>

definition dot_product_attention ::
  "env \<Rightarrow> array \<Rightarrow> array \<Rightarrow> array \<Rightarrow> array option \<Rightarrow> array option \<Rightarrow> array option \<Rightarrow>
   array option \<Rightarrow> real \<Rightarrow> MaskType \<Rightarrow> int \<Rightarrow> real \<Rightarrow> string \<Rightarrow> int option \<Rightarrow>
   error + primitive_call" where
  "dot_product_attention ev query key value bias mask_arr q_seqlen kv_seqlen scale mask_type
     seed dropout_rate qkv_layout sliding_window_length =
     and_then (check_cudnn_version ev) (\<lambda>cudnn_version.
     if \<not> compute_capability_8_0 ev
     then Inl (RuntimeError ''Require at least Ampere arch to run'')
     else and_then (normalize_layout qkv_layout) (\<lambda>layout.
     if has_padding mask_type \<and> (q_seqlen = None \<or> kv_seqlen = None)
     then Inl (ValueError ''Require q_seqlen and kv_seqlen to generate padding mask'')
     else if (case sliding_window_length of None \<Rightarrow> False | Some n \<Rightarrow> n \<le> 0)
     then Inl (ValueError ''Require sliding_window_length > 0'')
     else and_then (fold_mask_into_bias ev query bias mask_arr) (\<lambda>bias.
     and_then (check_layout query key value bias q_seqlen kv_seqlen layout) (\<lambda>_.
     let has_bias = (bias \<noteq> None) in
     and_then (case bias of
                 None \<Rightarrow> Inr False
               | Some b \<Rightarrow> should_export_dbias (shape b) (shape query) (LayoutEnum layout))
       (\<lambda>has_dbias.
     let variadic_args = (has_bias, has_dbias);
         zeros = \<lparr>shape = [0], dtype = dtype query\<rparr>;
         bias = (case bias of None \<Rightarrow> zeros | Some b \<Rightarrow> b);
         q_seqlen = (case q_seqlen of None \<Rightarrow> zeros | Some a \<Rightarrow> a);
         kv_seqlen = (case kv_seqlen of None \<Rightarrow> zeros | Some a \<Rightarrow> a) in
     dot_product_attention_fwd query key value bias q_seqlen kv_seqlen scale seed
       dropout_rate variadic_args mask_type (layout_value layout) sliding_window_length
       cudnn_version)))))"

subsection \<open>Backend configuration\<close>

text \<open>
  The configuration is a Python dictionary that \<^verbatim>\<open>json.dumps\<close> serialises. The
  model builds the dictionary as a JSON value; an object keeps its keys in insertion
  order, as the dictionary does.
\<close>

datatype json =
    JString string
  | JInt int
  | JFloat real
  | JBool bool
  | JList "json list"
  | JObject "(string \<times> json) list"

text \<open>\<^verbatim>\<open>str(n)\<close> for a natural number: its decimal digits.\<close>

fun str_nat :: "nat \<Rightarrow> string" where
  "str_nat n =
     (if n < 10 then [char_of (48 + n)]
      else str_nat (n div 10) @ [char_of (48 + n mod 10)])"

declare str_nat.simps [simp del]

text \<open>The element types of the intermediate representation that occur here.\<close>

datatype element_type = BF16 | F16 | F32 | UI8 | SI32

definition element_type_to_backend_config_type_mapping :: "element_type \<Rightarrow> error + string" where
  "element_type_to_backend_config_type_mapping dt =
     (case map_of [(BF16, ''BF16''), (F16, ''F16'')] dt of
        None \<Rightarrow> Inl (KeyError ''element type'')
      | Some name \<Rightarrow> Inr name)"

type_synonym dot_dims = "(nat \<times> nat) \<times> ((nat \<times> nat) \<times> (nat \<times> nat))"

definition bnth_dims :: "dot_dims list" where
  "bnth_dims =
     [((3, 3), ((0, 1), (0, 1))),
      ((3, 2), ((0, 1), (0, 1))),
      ((2, 2), ((0, 1), (0, 1))),
      ((3, 2), ((0, 1), (0, 1))),
      ((2, 2), ((0, 1), (0, 1))),
      ((3, 3), ((0, 1), (0, 1)))]"

definition btnh_dims :: "dot_dims list" where
  "btnh_dims =
     [((3, 3), ((0, 2), (0, 2))),
      ((3, 1), ((0, 1), (0, 2))),
      ((2, 1), ((0, 1), (0, 2))),
      ((3, 1), ((0, 1), (0, 2))),
      ((2, 1), ((0, 1), (0, 2))),
      ((3, 3), ((0, 2), (0, 2)))]"

definition dot_keys :: "string list" where
  "dot_keys =
     [''bmm1_dot_dimension_numbers'',
      ''bmm2_dot_dimension_numbers'',
      ''bmm1_grad_gemm1_dot_dimension_numbers'',
      ''bmm1_grad_gemm2_dot_dimension_numbers'',
      ''bmm2_grad_gemm1_dot_dimension_numbers'',
      ''bmm2_grad_gemm2_dot_dimension_numbers'']"

text \<open>The dictionary written for one matrix product in the loop over \<open>zip(keys, dims)\<close>.\<close>

fun dot_dimension_numbers :: "dot_dims \<Rightarrow> json" where
  "dot_dimension_numbers ((lc, rc), ((lb0, lb1), (rb0, rb1))) =
     JObject
       [(''lhs_contracting_dimensions'', JList [JString (str_nat lc)]),
        (''rhs_contracting_dimensions'', JList [JString (str_nat rc)]),
        (''lhs_batch_dimensions'', JList [JString (str_nat lb0), JString (str_nat lb1)]),
        (''rhs_batch_dimensions'', JList [JString (str_nat rb0), JString (str_nat rb1)])]"

definition algorithm_block :: json where
  "algorithm_block =
     JObject
       [(''algo_id'', JString ''0''),
        (''math_type'', JString ''TENSOR_OP_MATH''),
        (''tuning_knobs'', JObject [(''17'', JString ''1''), (''24'', JString ''0'')]),
        (''is_cudnn_frontend'', JBool True),
        (''workspace_size'', JString ''0'')]"

definition intermediate_layout :: json where
  "intermediate_layout =
     JObject
       [(''dim_level_types'', JList []),
        (''dim_unique'', JList []),
        (''dim_ordered'', JList []),
        (''minor_to_major'', JList [JString ''3'', JString ''2'', JString ''1'', JString ''0'']),
        (''tiles'', JList []),
        (''element_size_in_bits'', JString ''0''),
        (''memory_space'', JString ''0''),
        (''index_primitive_type'', JString ''PRIMITIVE_TYPE_INVALID''),
        (''pointer_primitive_type'', JString ''PRIMITIVE_TYPE_INVALID''),
        (''dynamic_shape_metadata_prefix_bytes'', JString ''0'')]"

definition create_dot_product_attention_backend_config ::
  "nat \<Rightarrow> nat \<Rightarrow> nat \<Rightarrow> nat \<Rightarrow> element_type \<Rightarrow> real \<Rightarrow> int \<Rightarrow> real \<Rightarrow> MaskType \<Rightarrow> int \<Rightarrow>
   int option \<Rightarrow> bool \<Rightarrow> error + json" where
  "create_dot_product_attention_backend_config batch num_heads seq_q seq_kv dt fmha_scale
     seed dropout_rate mask_type layout sliding_window_length is_bwd =
     (let sliding_window_length =
            (case sliding_window_length of None \<Rightarrow> 0 | Some n \<Rightarrow> n) in
      and_then (element_type_to_backend_config_type_mapping dt) (\<lambda>element_type.
      let cudnn_fmha_backend_config =
            [(''algorithm'', algorithm_block),
             (''fmha_scale'', JFloat fmha_scale),
             (''dropout_rate'', JFloat dropout_rate),
             (''intermediate_tensor_shape'',
                JObject
                  [(''element_type'', JString element_type),
                   (''dimensions'',
                      JList [JString (str_nat batch), JString (str_nat num_heads),
                             JString (str_nat seq_q), JString (str_nat seq_kv)]),
                   (''tuple_shapes'', JList []),
                   (''layout'', intermediate_layout),
                   (''is_dynamic_dimension'',
                      JList [JBool False, JBool False, JBool False, JBool False])]),
             (''seed'', JInt seed),
             (''is_flash_attention'', JBool True),
             (''mask_type'', JString (convert_mask_type_to_string mask_type)),
             (''sliding_window_length'', JInt sliding_window_length)];
          dims = (if layout = layout_value BNTH then bnth_dims else btnh_dims);
          dot_numbers = map (\<lambda>(key, d). (key, dot_dimension_numbers d)) (zip dot_keys dims);
          fwd_dot_number = take 2 dot_numbers;
          bwd_dot_number = drop 2 dot_numbers;
          cudnn_fmha_backend_config =
            (if is_bwd then cudnn_fmha_backend_config @ bwd_dot_number
             else cudnn_fmha_backend_config @ fwd_dot_number) in
      Inr (JObject
             [(''operation_queue_id'', JString ''0''),
              (''wait_on_operation_queues'', JList []),
              (''cudnn_fmha_backend_config'', JObject cudnn_fmha_backend_config)])))"

subsection \<open>Custom call names\<close>

text \<open>The mapping from \<open>(is_bwd, has_dropout, has_bias)\<close> to the custom call name.\<close>

definition custom_name_maps :: "((bool \<times> bool \<times> bool) \<times> string) list" where
  "custom_name_maps =
     [((False, False, False), ''__cudnn$fmhaSoftmax''),
      ((False, False, True), ''__cudnn$fmhaScaleBiasSoftmax''),
      ((False, True, False), ''__cudnn$fmhaSoftmaxDropout''),
      ((False, True, True), ''__cudnn$fmhaScaleBiasSoftmaxDropout''),
      ((True, False, False), ''__cudnn$fmhaSoftmaxBackward''),
      ((True, False, True), ''__cudnn$fmhaScaleBiasSoftmaxBackward''),
      ((True, True, False), ''__cudnn$fmhaSoftmaxDropoutBackward''),
      ((True, True, True), ''__cudnn$fmhaScaleBiasSoftmaxDropoutBackward'')]"

definition get_custom_call_name :: "bool \<Rightarrow> bool \<Rightarrow> bool \<Rightarrow> error + string" where
  "get_custom_call_name has_bias has_dropout is_bwd =
     (case map_of custom_name_maps (is_bwd, has_dropout, has_bias) of
        None \<Rightarrow> Inl (KeyError ''custom call name'')
      | Some name \<Rightarrow> Inr name)"

subsection \<open>Forward lowering\<close>

text \<open>
  A value of the intermediate representation is read through its ranked tensor type.
  The lowering emits one custom call and returns expressions over its results:
  a result as it is, or a result under \<open>hlo.transpose\<close> with a permutation.
\<close>

record ir_value =
  v_shape :: "nat list"
  v_elem :: element_type

record custom_call =
  call_target_name :: string
  result_types :: "(nat list \<times> element_type) list"
  call_operands :: "ir_value list"
  backend_config :: json
  operand_layouts :: "nat list list"
  result_layouts :: "nat list list"

datatype lowered_result = Transposed nat "nat list" | Plain nat

definition default_layouts :: "nat list list \<Rightarrow> nat list list" where
  "default_layouts shapes = map (\<lambda>s. rev [0..<length s]) shapes"

text \<open>The shape of \<open>hlo.transpose(x, perm)\<close>: axis \<open>i\<close> of the result is axis \<open>perm[i]\<close> of \<open>x\<close>.\<close>

definition transpose_shape :: "nat list \<Rightarrow> nat list \<Rightarrow> nat list" where
  "transpose_shape perm s = map (\<lambda>i. s ! i) perm"

definition dot_product_attention_fwd_cuda_lowering ::
  "ir_value \<Rightarrow> ir_value \<Rightarrow> ir_value \<Rightarrow> ir_value \<Rightarrow> ir_value \<Rightarrow> ir_value \<Rightarrow> real \<Rightarrow> int \<Rightarrow>
   real \<Rightarrow> bool \<times> bool \<Rightarrow> MaskType \<Rightarrow> int \<Rightarrow> int option \<Rightarrow> bool \<Rightarrow>
   error + (custom_call \<times> lowered_result list)" where
  "dot_product_attention_fwd_cuda_lowering query key value bias q_seqlen kv_seqlen scale seed
     dropout_rate variadic_args mask_type layout sliding_window_length is_training =
     and_then (unpack4 (v_shape query)) (\<lambda>(q0, q1, q2, q3).
     and_then (unpack4 (v_shape key)) (\<lambda>(k0, k1, k2, k3).
     let (B, N, T, H, S, output_layout, output_transpose_perm) =
           (if layout = layout_value BNTH
            then (q0, q1, q2, q3, k2, [3, 2, 1, 0], [0, 1, 2, 3])
            else (q0, q2, q1, q3, k1, [3, 1, 2, 0], [0, 2, 1, 3]));
         output_shape = [B, N, T, H];
         softmax_stat_shape = [B, N, T];
         workspace_shape = [0];
         workspace_type = UI8 in
     and_then (create_dot_product_attention_backend_config B N T S (v_elem query) scale seed
                 dropout_rate mask_type layout sliding_window_length False) (\<lambda>backend_config.
     let has_dropout = (dropout_rate > 0);
         has_bias = fst variadic_args;
         operands = [query, key, value];
         operands = (if has_bias then operands @ [bias] else operands);
         operands = (if has_padding mask_type then operands @ [q_seqlen, kv_seqlen]
                     else operands) in
     and_then (get_custom_call_name has_bias has_dropout False) (\<lambda>custom_call_name.
     let (result_types, result_layouts) =
           (if is_training
            then ([(output_shape, v_elem query), (softmax_stat_shape, F32),
                   (workspace_shape, workspace_type)],
                  [output_layout] @ default_layouts [softmax_stat_shape, workspace_shape])
            else ([(output_shape, v_elem query), (workspace_shape, workspace_type)],
                  [output_layout] @ default_layouts [workspace_shape]));
         out = \<lparr>call_target_name = custom_call_name,
                result_types = result_types,
                call_operands = operands,
                backend_config = backend_config,
                operand_layouts = default_layouts (map v_shape operands),
                result_layouts = result_layouts\<rparr> in
     if is_training
     then Inr (out, [Transposed 0 output_transpose_perm, Plain 1])
     else Inr (out, [Transposed 0 output_transpose_perm])))))"

subsection \<open>Batching rule of the forward primitive\<close>

text \<open>
  Starred unpacking \<^verbatim>\<open>*rest, a, b, c = xs\<close> raises ValueError when \<open>xs\<close> has fewer than
  three entries.
\<close>

definition unpack_star3 :: "'a list \<Rightarrow> error + ('a list \<times> 'a \<times> 'a \<times> 'a)" where
  "unpack_star3 xs =
     (case rev xs of
        c # b # a # rest \<Rightarrow> Inr (rev rest, a, b, c)
      | _ \<Rightarrow> Inl (ValueError ''unpack''))"

text \<open>Indexing \<^verbatim>\<open>xs[i]\<close> with \<open>i \<ge> 0\<close> raises IndexError outside the list.\<close>

definition nth_or_raise :: "'a list \<Rightarrow> nat \<Rightarrow> error + 'a" where
  "nth_or_raise xs i = (if i < length xs then Inr (xs ! i) else Inl IndexError)"

text \<open>\<^verbatim>\<open>jnp.reshape\<close> keeps the dtype and needs the same number of elements.\<close>

definition reshape :: "array \<Rightarrow> nat list \<Rightarrow> error + array" where
  "reshape a new_shape =
     (if prod_list (shape a) = prod_list new_shape then Inr (a\<lparr>shape := new_shape\<rparr>)
      else Inl (TypeError ''cannot reshape array''))"

text \<open>\<^verbatim>\<open>dtypes.canonicalize_dtype\<close> with 64-bit types disabled, the default.\<close>

fun canonicalize_dtype :: "dtype \<Rightarrow> dtype" where
  "canonicalize_dtype Float64 = Float32"
| "canonicalize_dtype Int64 = Int32"
| "canonicalize_dtype dt = dt"

text \<open>
  Binding the forward primitive calls \<open>_dot_product_attention_fwd_abstract\<close> with the
  operands and the keyword parameters of the call. All eight parameters are keyword-only
  without default, so Python raises TypeError when one is missing.
\<close>

definition fwd_param_names :: "string list" where
  "fwd_param_names =
     [''scale'', ''seed'', ''dropout_rate'', ''variadic_args'', ''mask_type'', ''layout'',
      ''sliding_window_length'', ''is_training'']"

definition dot_product_attention_fwd_abstract :: "primitive_call \<Rightarrow> error + array list" where
  "dot_product_attention_fwd_abstract call =
     (if list_ex (\<lambda>name. map_of (params call) name = None) fwd_param_names
      then Inl (TypeError ''missing required keyword-only argument'')
      else
        (case (operands call, map_of (params call) ''layout'',
               map_of (params call) ''is_training'') of
           ([query, key, value, bias, q_seqlen, kv_seqlen], Some (PInt layout),
            Some (PBool is_training)) \<Rightarrow>
             let query_dtype = canonicalize_dtype (dtype query) in
             and_then (unpack4 (shape query)) (\<lambda>(q0, q1, q2, q3).
             and_then (unpack4 (shape key)) (\<lambda>(k0, k1, k2, k3).
             let (B, N, T) = (if layout = layout_value BNTH then (q0, q1, q2)
                              else (q0, q2, q1));
                 output_shape = shape query;
                 softmax_stat_shape = [B, N, T] in
             if is_training
             then Inr [\<lparr>shape = output_shape, dtype = query_dtype\<rparr>,
                       \<lparr>shape = softmax_stat_shape, dtype = Float32\<rparr>]
             else Inr [\<lparr>shape = output_shape, dtype = query_dtype\<rparr>]))
         | _ \<Rightarrow> Inl (TypeError ''bad arguments'')))"

definition check_valid_batch_dims :: "int option list \<Rightarrow> error + unit" where
  "check_valid_batch_dims bdims =
     (if list_ex (\<lambda>dim. dim \<notin> set [Some 0, None]) bdims
      then Inl (NotImplementedError ''Currently only support batch_dim in [0, None]'')
      else Inr ())"

text \<open>
  The batching rule up to its call of the primitive: the operands reshaped to one batch
  axis, and the keyword parameters that the source passes to \<open>bind\<close>. The source
  takes \<open>sliding_window_length\<close> as a parameter and passes \<open>scale\<close>, \<open>seed\<close>, \<open>dropout_rate\<close>,
  \<open>variadic_args\<close>, \<open>mask_type\<close>, \<open>layout\<close> and \<open>is_training\<close> on.
\<close>

definition dot_product_attention_fwd_batcher_bind ::
  "array list \<Rightarrow> int option list \<Rightarrow> real \<Rightarrow> int \<Rightarrow> real \<Rightarrow> bool \<times> bool \<Rightarrow> MaskType \<Rightarrow> int \<Rightarrow>
   int option \<Rightarrow> bool \<Rightarrow> error + primitive_call" where
  "dot_product_attention_fwd_batcher_bind batched_args batch_dims scale seed dropout_rate
     variadic_args mask_type layout sliding_window_length is_training =
     and_then (check_valid_batch_dims batch_dims) (\<lambda>_.
     case batched_args of
       [query, key, value, bias, q_seqlen, kv_seqlen] \<Rightarrow>
         and_then (nth_or_raise batch_dims 0) (\<lambda>query_bdim.
         and_then (unpack_star3 (shape query)) (\<lambda>(Bs, q1, q2, _).
         and_then (unpack_star3 (shape key)) (\<lambda>(_, k1, k2, _).
         let (N, T, S) = (if layout = layout_value BNTH then (q1, q2, k2) else (q2, q1, k1));
             B = prod_list Bs;
             has_bias = fst variadic_args in
         and_then (reshape query (B # drop (length (shape query) - 3) (shape query))) (\<lambda>query.
         and_then (reshape key (B # drop (length (shape key) - 3) (shape key))) (\<lambda>key.
         and_then (reshape value (B # drop (length (shape key) - 3) (shape key))) (\<lambda>value.
         and_then (if has_bias
                   then and_then (nth_or_raise batch_dims 3) (\<lambda>bias_bdim.
                        if bias_bdim \<noteq> None then reshape bias [B, N, T, S] else Inr bias)
                   else Inr bias) (\<lambda>bias.
         and_then (if has_padding mask_type then reshape q_seqlen [B] else Inr q_seqlen)
           (\<lambda>q_seqlen.
         and_then (if has_padding mask_type then reshape kv_seqlen [B] else Inr kv_seqlen)
           (\<lambda>kv_seqlen.
         Inr \<lparr>operands = [query, key, value, bias, q_seqlen, kv_seqlen],
              params = [(''scale'', PFloat scale), (''seed'', PInt seed),
                        (''dropout_rate'', PFloat dropout_rate),
                        (''variadic_args'',
                           PTuple [PBool (fst variadic_args), PBool (snd variadic_args)]),
                        (''mask_type'', PMaskType mask_type), (''layout'', PInt layout),
                        (''is_training'', PBool is_training)]\<rparr>)))))))))
     | _ \<Rightarrow> Inl (ValueError ''unpack''))"

text \<open>The whole batching rule: the call is bound and the outputs are reshaped back.\<close>

definition dot_product_attention_fwd_batcher ::
  "array list \<Rightarrow> int option list \<Rightarrow> real \<Rightarrow> int \<Rightarrow> real \<Rightarrow> bool \<times> bool \<Rightarrow> MaskType \<Rightarrow> int \<Rightarrow>
   int option \<Rightarrow> bool \<Rightarrow> error + (array list \<times> int option list)" where
  "dot_product_attention_fwd_batcher batched_args batch_dims scale seed dropout_rate
     variadic_args mask_type layout sliding_window_length is_training =
     and_then (dot_product_attention_fwd_batcher_bind batched_args batch_dims scale seed
                 dropout_rate variadic_args mask_type layout sliding_window_length
                 is_training) (\<lambda>call.
     and_then (nth_or_raise batch_dims 0) (\<lambda>query_bdim.
     and_then (nth_or_raise batched_args 0) (\<lambda>query.
     let original_shape = shape query in
     and_then (unpack_star3 original_shape) (\<lambda>(Bs, q1, q2, _).
     let (N, T) = (if layout = layout_value BNTH then (q1, q2) else (q2, q1)) in
     and_then (dot_product_attention_fwd_abstract call) (\<lambda>outputs.
     case outputs of
       [] \<Rightarrow> Inl IndexError
     | out # rest \<Rightarrow>
         and_then (reshape out original_shape) (\<lambda>output.
         if is_training
         then (case rest of
                 [] \<Rightarrow> Inl IndexError
               | act # _ \<Rightarrow>
                   and_then (reshape act (Bs @ [N, T])) (\<lambda>activation.
                   Inr ([output, activation], [query_bdim, query_bdim])))
         else Inr ([output], [query_bdim])))))))"

subsection \<open>Sharding\<close>

text \<open>
  An entry of a partition specification: \<open>None\<close>, the name of a mesh axis, or a tuple of
  names. A mesh is given by its axis names and sizes.
\<close>

datatype partition_label = Unsharded | AxisName string | AxisNames "string list"

text \<open>The truth value that \<^verbatim>\<open>any(...)\<close> reads from an entry.\<close>

fun truthy :: "partition_label \<Rightarrow> bool" where
  "truthy Unsharded = False"
| "truthy (AxisName a) = (a \<noteq> [])"
| "truthy (AxisNames as) = (as \<noteq> [])"

type_synonym mesh = "(string \<times> nat) list"

record named_sharding =
  ns_mesh :: mesh
  spec :: "partition_label list"

record arg_info =
  sharding :: "named_sharding option"
  ndim :: nat

definition get_padded_spec :: "arg_info \<Rightarrow> error + partition_label list" where
  "get_padded_spec info =
     (case sharding info of
        None \<Rightarrow> Inr (replicate (ndim info) Unsharded)
      | Some sh \<Rightarrow>
          if \<not> length (spec sh) \<le> ndim info then Inl AssertionError
          else Inr (spec sh @ replicate (ndim info - length (spec sh)) Unsharded))"

text \<open>\<open>bias_spec\<close> is \<open>None\<close> without a bias; an empty tuple also counts as false.\<close>

definition check_qkv_bias_mask_spec ::
  "partition_label list \<Rightarrow> partition_label list \<Rightarrow> partition_label list \<Rightarrow>
   partition_label list option \<Rightarrow> error + unit" where
  "check_qkv_bias_mask_spec query_spec key_spec value_spec bias_spec =
     (if \<not> (query_spec = key_spec \<and> key_spec = value_spec)
      then Inl (ValueError ''Query, key and value should have same sharding.'')
      else and_then (unpack_star3 query_spec) (\<lambda>(batch_spec, q_seq_spec, num_head_spec, head_spec).
      if q_seq_spec \<noteq> Unsharded
      then Inl (ValueError ''Sharding on sequence dim is not allowed.'')
      else if head_spec \<noteq> Unsharded
      then Inl (ValueError ''Sharding on head dim is not allowed.'')
      else
        (case bias_spec of
           None \<Rightarrow> Inr ()
         | Some bs \<Rightarrow>
             if bs = [] then Inr ()
             else and_then (unpack_star3 bs)
               (\<lambda>(bias_batch_spec, bias_num_head_spec, bias_q_seq_spec, bias_kv_seq_spec).
               if list_ex truthy bias_batch_spec \<and> bias_batch_spec \<noteq> batch_spec \<or>
                  bias_num_head_spec \<noteq> Unsharded \<and> bias_num_head_spec \<noteq> num_head_spec
               then Inl (ValueError
                      ''Query and bias should have same sharding on batch and num_head dim.'')
               else if bias_q_seq_spec \<noteq> Unsharded \<or> bias_kv_seq_spec \<noteq> Unsharded
               then Inl (ValueError ''Sharding on bias sequence dim is not allowed.'')
               else Inr ()))))"

text \<open>The specifications of query, key, value and bias that both inference functions
  read from the operands, and their check.\<close>

definition checked_specs ::
  "arg_info list \<Rightarrow> bool \<Rightarrow>
   error + (partition_label list \<times> partition_label list \<times> partition_label list option)" where
  "checked_specs arg_shapes has_bias =
     and_then (and_then (nth_or_raise arg_shapes 0) get_padded_spec) (\<lambda>query_spec.
     and_then (and_then (nth_or_raise arg_shapes 1) get_padded_spec) (\<lambda>key_spec.
     and_then (and_then (nth_or_raise arg_shapes 2) get_padded_spec) (\<lambda>value_spec.
     and_then (if has_bias
               then and_then (and_then (nth_or_raise arg_shapes 3) get_padded_spec)
                      (\<lambda>b. Inr (Some b))
               else Inr None) (\<lambda>bias_spec.
     and_then (check_qkv_bias_mask_spec query_spec key_spec value_spec bias_spec) (\<lambda>_.
     Inr (query_spec, key_spec, bias_spec))))))"

definition infer_fwd_output_sharding ::
  "mesh \<Rightarrow> arg_info list \<Rightarrow> bool \<times> bool \<Rightarrow> bool \<Rightarrow> error + named_sharding list" where
  "infer_fwd_output_sharding m arg_shapes variadic_args is_training =
     and_then (checked_specs arg_shapes (fst variadic_args))
       (\<lambda>(query_spec, key_spec, bias_spec).
     let out_sharding = \<lparr>ns_mesh = m, spec = query_spec\<rparr> in
     if is_training
     then and_then (unpack_star3 query_spec) (\<lambda>(batch_spec, q_seq_spec, num_head_spec, _).
          let activation_sharding =
                \<lparr>ns_mesh = m, spec = batch_spec @ [num_head_spec, q_seq_spec, Unsharded]\<rparr> in
          Inr [out_sharding, activation_sharding])
     else Inr [out_sharding])"

definition infer_bwd_output_sharding ::
  "mesh \<Rightarrow> arg_info list \<Rightarrow> bool \<times> bool \<Rightarrow> error + named_sharding list" where
  "infer_bwd_output_sharding m arg_shapes variadic_args =
     and_then (checked_specs arg_shapes (fst variadic_args))
       (\<lambda>(query_spec, key_spec, bias_spec).
     let grad_query_sharding = \<lparr>ns_mesh = m, spec = query_spec\<rparr>;
         grad_key_sharding = \<lparr>ns_mesh = m, spec = key_spec\<rparr>;
         grad_value_sharding = \<lparr>ns_mesh = m, spec = key_spec\<rparr>;
         out_shardings = [grad_query_sharding, grad_key_sharding, grad_value_sharding] in
     if snd variadic_args
     then (case bias_spec of
             None \<Rightarrow> Inl (TypeError ''argument after * must be an iterable, not NoneType'')
           | Some b \<Rightarrow> Inr (out_shardings @ [\<lparr>ns_mesh = m, spec = b\<rparr>]))
     else Inr out_shardings)"

text \<open>
  The backward partition rule returns the mesh, the output shardings, the operand
  shardings and the function \<open>sharded_impl\<close>. That function runs the backward primitive
  on the local operands (\<open>impl\<close>, which gives a list of gradients) and
  \<^verbatim>\<open>jax.lax.psum\<close> (\<open>psum\<close>, taking a value and the axis entry); both are parameters here.
\<close>

definition sharded_impl ::
  "('g \<Rightarrow> partition_label \<Rightarrow> 'g) \<Rightarrow> ('a list \<Rightarrow> 'g list) \<Rightarrow> bool \<times> bool \<Rightarrow>
   named_sharding option list \<Rightarrow> 'a list \<Rightarrow> error + 'g list" where
  "sharded_impl psum impl variadic_args arg_shardings args =
     (let grads = impl args;
          has_dbias = snd variadic_args in
      if has_dbias
      then and_then (nth_or_raise arg_shardings 0) (\<lambda>sh.
           case sh of
             None \<Rightarrow> Inl AttributeError
           | Some sh \<Rightarrow>
               let query_spec = spec sh in
               and_then (nth_or_raise query_spec 0) (\<lambda>batch_spec.
               and_then (nth_or_raise grads 3) (\<lambda>local_dbias.
               let global_dbias = psum local_dbias batch_spec in
               Inr (take 3 grads @ [global_dbias]))))
      else Inr grads)"

definition dot_product_attention_bwd_partition ::
  "mesh \<Rightarrow> arg_info list \<Rightarrow> bool \<times> bool \<Rightarrow>
   error + (mesh \<times> named_sharding list \<times> named_sharding option list)" where
  "dot_product_attention_bwd_partition m arg_shapes variadic_args =
     and_then (infer_bwd_output_sharding m arg_shapes variadic_args) (\<lambda>out_shardings.
     let arg_shardings = map sharding arg_shapes in
     Inr (m, out_shardings, arg_shardings))"

definition dot_product_attention_fwd_partition ::
  "mesh \<Rightarrow> arg_info list \<Rightarrow> bool \<times> bool \<Rightarrow> bool \<Rightarrow>
   error + (mesh \<times> named_sharding list \<times> named_sharding option list)" where
  "dot_product_attention_fwd_partition m arg_shapes variadic_args is_training =
     (let arg_shardings = map sharding arg_shapes in
      and_then (infer_fwd_output_sharding m arg_shapes variadic_args is_training)
        (\<lambda>out_shardings. Inr (m, out_shardings, arg_shardings)))"

subsection \<open>Example inputs\<close>

text \<open>An environment with cuDNN 8.9.4 on an Ampere device, and float16 arrays of a given
  shape, for the concrete evaluations below.\<close>

definition ampere_env :: env where
  "ampere_env =
     \<lparr>cuda_versions = Some 8904, compute_capability_8_0 = True, result_dtype = (\<lambda>a b. a)\<rparr>"

definition f16 :: "nat list \<Rightarrow> array" where
  "f16 s = \<lparr>shape = s, dtype = Float16\<rparr>"

definition f16_value :: "nat list \<Rightarrow> ir_value" where
  "f16_value s = \<lparr>v_shape = s, v_elem = F16\<rparr>"

text \<open>A mesh of two by two devices; operands sharded on batch and heads, and operands
  with an empty (replicated) specification.\<close>

definition example_mesh :: mesh where
  "example_mesh = [(''data'', 2), (''model'', 2)]"

definition qkv_info :: arg_info where
  "qkv_info =
     \<lparr>sharding = Some \<lparr>ns_mesh = example_mesh,
                       spec = [AxisName ''data'', Unsharded, AxisName ''model'']\<rparr>,
      ndim = 4\<rparr>"

definition replicated_info :: "nat \<Rightarrow> arg_info" where
  "replicated_info n = \<lparr>sharding = Some \<lparr>ns_mesh = example_mesh, spec = []\<rparr>, ndim = n\<rparr>"

section \<open>Theorems\<close>

subsection \<open>Auxiliary facts\<close>

lemma and_then_Inr_iff: "and_then r f = Inr y \<longleftrightarrow> (\<exists>x. r = Inr x \<and> f x = Inr y)"
  by (cases r) (auto simp: and_then_def)

lemma and_then_Inl_iff:
  "and_then r f = Inl e \<longleftrightarrow> r = Inl e \<or> (\<exists>x. r = Inr x \<and> f x = Inl e)"
  by (cases r) (auto simp: and_then_def)

lemma and_then_Inl: "and_then (Inl e) f = Inl e"
  by (simp add: and_then_def)

lemma and_then_Inr: "and_then (Inr x) f = f x"
  by (simp add: and_then_def)

lemma and_then_if:
  "and_then (if c then a else b) f = (if c then and_then a f else and_then b f)"
  by simp

lemma unpack4_Inr: "unpack4 s = Inr (a, b, c, d) \<longleftrightarrow> s = [a, b, c, d]"
  by (cases s rule: unpack4.cases) auto

lemma unpack4_len: "length (s :: nat list) = 4 \<Longrightarrow> \<exists>a b c d. s = [a, b, c, d]"
  by (cases s rule: unpack4.cases) auto

lemma unpack4_Inl: "unpack4 s = Inl e \<Longrightarrow> e = ValueError ''unpack''"
  by (cases s rule: unpack4.cases) auto

lemma rank1_hd: "length s = 1 \<and> hd s = (b::nat) \<longleftrightarrow> s = [b]"
  by (cases s) auto

subsection \<open>Layout-string normalization\<close>

lemma upper_char_idem: "upper_char (upper_char c) = upper_char c"
proof (cases "97 \<le> (of_char c :: nat) \<and> (of_char c :: nat) \<le> 122")
  case True
  have "(of_char c :: nat) - 32 < 256"
    using nat_of_char_less_256 [of c] by linarith
  then have "(of_char (char_of (of_char c - 32 :: nat)) :: nat) = of_char c - 32"
    by (simp only: of_char_of mod_less)
  with True show ?thesis by (auto simp: upper_char_def Let_def)
next
  case False
  then show ?thesis by (auto simp: upper_char_def Let_def)
qed

lemma upper_idem: "upper (upper s) = upper s"
  by (simp add: upper_def upper_char_idem)

text \<open>
  C10. Layout-string normalization is case-insensitive and aliases S to T: it succeeds
  exactly when the uppercased string is one of BTNH, BNTH, BSNH, BNSH; BSNH gives the
  same layout as BTNH, BNSH the same as BNTH; every other string raises ValueError; and
  a string and its uppercased form have the same result.
\<close>

theorem normalize_layout_spec:
  "normalize_layout s =
     (if upper s = ''BTNH'' \<or> upper s = ''BSNH'' then Inr BTNH
      else if upper s = ''BNTH'' \<or> upper s = ''BNSH'' then Inr BNTH
      else Inl (ValueError ''Unsupported qkv_layout''))
   \<and> normalize_layout (upper s) = normalize_layout s"
  by (auto simp: normalize_layout_def Let_def replace_S_T_def AttentionLayout_of_name_def
      upper_idem)

theorem normalize_layout_spec_witness:
  "normalize_layout ''bsnh'' = Inr BTNH \<and> normalize_layout ''BnSh'' = Inr BNTH
   \<and> normalize_layout ''BTHN'' = Inl (ValueError ''Unsupported qkv_layout'')"
proof -
  have u: "upper ''bsnh'' = ''BSNH''" "upper ''BnSh'' = ''BNSH''" "upper ''BTHN'' = ''BTHN''"
    by code_simp+
  show ?thesis
    using normalize_layout_spec [of "''bsnh''"] normalize_layout_spec [of "''BnSh''"]
      normalize_layout_spec [of "''BTHN''"]
    by (simp add: u)
qed


subsection \<open>Boolean masks\<close>

text \<open>
  C1, as stated: a boolean mask gives exactly \<open>-2^14\<close> at masked positions for a float16
  query and \<open>-2^40\<close> for a bfloat16 query. The source shifts \<open>-2\<close>, so this fails.
\<close>

theorem bool_mask_minus_2_pow_14_counterexample:
  "bool_mask_to_additive Float16 [True, False] \<noteq> Inr [0, - (2 ^ 14)]
   \<and> bool_mask_to_additive BFloat16 [True, False] \<noteq> Inr [0, - (2 ^ 40)]"
  by (simp add: bool_mask_to_additive_def get_large_negative_number_def push_bit_eq_mult)

text \<open>
  C1, amended: for every boolean mask, an unmasked (true) position receives 0 and a masked
  (false) position receives exactly \<open>-2^15\<close> when the query dtype is float16 and exactly
  \<open>-2^41\<close> when it is bfloat16; for any other query dtype the conversion raises
  ValueError.
\<close>

theorem bool_mask_values:
  "bool_mask_to_additive Float16 ms = Inr (map (\<lambda>m. if m then 0 else - (2 ^ 15)) ms)
   \<and> bool_mask_to_additive BFloat16 ms = Inr (map (\<lambda>m. if m then 0 else - (2 ^ 41)) ms)
   \<and> (dt \<noteq> Float16 \<and> dt \<noteq> BFloat16 \<longrightarrow>
        bool_mask_to_additive dt ms = Inl (ValueError ''Unsupported dtype for inputs.''))"
  by (simp add: bool_mask_to_additive_def get_large_negative_number_def push_bit_eq_mult)

theorem bool_mask_values_witness:
  "bool_mask_to_additive Float16 [True, False, True] = Inr [0, - 32768, 0]
   \<and> bool_mask_to_additive BFloat16 [False] = Inr [- 2199023255552]
   \<and> bool_mask_to_additive Float32 [False] = Inl (ValueError ''Unsupported dtype for inputs.'')"
  using bool_mask_values [of "[True, False, True]" Float32]
    bool_mask_values [of "[False]" Float32]
  by simp

subsection \<open>Shape validation\<close>

lemma check_layout_rank4:
  assumes "shape query = [q0, q1, q2, q3]" "shape key = [k0, k1, k2, k3]"
    "shape value = [v0, v1, v2, v3]"
  shows "check_layout query key value bias q_seqlen kv_seqlen layout = Inr () \<longleftrightarrow>
    dtype query \<in> {BFloat16, Float16} \<and> dtype key = dtype query \<and> dtype value = dtype query \<and>
    k0 = q0 \<and> k3 = q3 \<and> shape value = shape key \<and>
    (case bias of None \<Rightarrow> True
     | Some b \<Rightarrow> \<exists>bB bN. shape b = [bB, bN, if layout = BNTH then q2 else q1,
                                       if layout = BNTH then k2 else k1]) \<and>
    (case q_seqlen of None \<Rightarrow> True | Some a \<Rightarrow> dtype a = Int32 \<and> shape a = [q0]) \<and>
    (case kv_seqlen of None \<Rightarrow> True | Some a \<Rightarrow> dtype a = Int32 \<and> shape a = [q0])"
proof -
  have bias_ok: "\<And>T S. (case bias of None \<Rightarrow> Inr ()
          | Some b \<Rightarrow> and_then (unpack4 (shape b)) (\<lambda>(_, _, bT, bS).
              if bT \<noteq> T \<or> bS \<noteq> S
              then Inl (ValueError ''Bias must have same seq length as QKV'')
              else Inr ())) = Inr ()
        \<longleftrightarrow> (case bias of None \<Rightarrow> True | Some b \<Rightarrow> \<exists>bB bN. shape b = [bB, bN, T, S])"
  proof -
    fix T S
    show "?thesis T S"
    proof (cases bias)
      case None then show ?thesis by simp
    next
      case (Some b)
      show ?thesis
      proof (cases "length (shape b) = 4")
        case True
        then obtain a b' c d where "shape b = [a, b', c, d]" using unpack4_len by blast
        then show ?thesis using Some by (auto simp: and_then_def)
      next
        case False
        then have "\<exists>e. unpack4 (shape b) = Inl e"
          by (cases "shape b" rule: unpack4.cases) auto
        then show ?thesis using Some False by (auto simp: and_then_def)
      qed
    qed
  qed
  have seq_ok: "\<And>name1 name2 name3 sq. (case sq of None \<Rightarrow> Inr ()
          | Some a \<Rightarrow> if dtype a \<noteq> Int32 then Inl (ValueError name1)
              else if length (shape a) \<noteq> 1 then Inl (ValueError name2)
              else if hd (shape a) \<noteq> q0 then Inl (ValueError name3)
              else Inr ()) = Inr ()
        \<longleftrightarrow> (case sq of None \<Rightarrow> True | Some a \<Rightarrow> dtype a = Int32 \<and> shape a = [q0])"
  proof -
    fix name1 name2 name3 sq
    show "?thesis name1 name2 name3 sq"
    proof (cases sq)
      case None then show ?thesis by simp
    next
      case (Some a)
      have "length (shape a) = 1 \<and> hd (shape a) = q0 \<longleftrightarrow> shape a = [q0]"
        by (rule rank1_hd)
      then show ?thesis using Some by auto
    qed
  qed
  show ?thesis
    using assms
    unfolding check_layout_def Let_def check_eq_def
    by (cases layout) (auto simp: and_then_Inr_iff bias_ok seq_ok split: if_splits)
qed

lemma check_layout_not_rank4:
  assumes "length (shape query) \<noteq> 4 \<or> length (shape key) \<noteq> 4 \<or> length (shape value) \<noteq> 4"
  shows "check_layout query key value bias q_seqlen kv_seqlen layout \<noteq> Inr ()"
  using assms unfolding check_layout_def Let_def check_eq_def
  by (auto simp: and_then_Inr_iff split: if_splits)

lemma bias_check_value:
  "and_then (unpack4 (shape b)) (\<lambda>(_, _, bT, bS).
      if bT \<noteq> T \<or> bS \<noteq> S
      then Inl (ValueError ''Bias must have same seq length as QKV'')
      else Inr ())
   = (if length (shape b) \<noteq> 4 then Inl (ValueError ''unpack'')
      else if shape b ! 2 \<noteq> T \<or> shape b ! 3 \<noteq> S
      then Inl (ValueError ''Bias must have same seq length as QKV'')
      else Inr ())"
proof (cases "length (shape b) = 4")
  case True
  then obtain a b' c d where "shape b = [a, b', c, d]" using unpack4_len by blast
  then show ?thesis by (simp add: and_then_Inr)
next
  case False
  then have "unpack4 (shape b) = Inl (ValueError ''unpack'')"
    by (cases "shape b" rule: unpack4.cases) auto
  then show ?thesis using False by (simp add: and_then_Inl)
qed

lemma check_layout_value:
  "check_layout query key value bias q_seqlen kv_seqlen layout =
     (let iN = (if layout = BNTH then 1 else 2); iT = (if layout = BNTH then 2 else 1);
          sq = shape query; sk = shape key; sv = shape value in
      if length sq \<noteq> 4 then Inl (ValueError ''Q must have a rank of 4'')
      else if \<not> (length sq = length sk \<and> length sk = length sv)
      then Inl (ValueError ''QKV rank must be same'')
      else if dtype query \<noteq> BFloat16 \<and> dtype query \<noteq> Float16
      then Inl (NotImplementedError ''Q must be fp16 or bf16'')
      else if \<not> (dtype query = dtype key \<and> dtype key = dtype value)
      then Inl (ValueError ''QKV dtype must be same'')
      else if \<not> (sq ! 0 = sk ! 0 \<and> sk ! 0 = sv ! 0)
      then Inl (ValueError ''QKV batch must be same'')
      else if \<not> (sq ! 3 = sk ! 3 \<and> sk ! 3 = sv ! 3)
      then Inl (ValueError ''QKV dim_per_head must be same'')
      else if sk ! iN \<noteq> sv ! iN then Inl (ValueError ''KV must have same number of heads'')
      else if sk ! iT \<noteq> sv ! iT then Inl (ValueError ''KV must have same seq length'')
      else if (case bias of None \<Rightarrow> False | Some b \<Rightarrow> length (shape b) \<noteq> 4)
      then Inl (ValueError ''unpack'')
      else if (case bias of None \<Rightarrow> False
               | Some b \<Rightarrow> shape b ! 2 \<noteq> sq ! iT \<or> shape b ! 3 \<noteq> sv ! iT)
      then Inl (ValueError ''Bias must have same seq length as QKV'')
      else if (case q_seqlen of None \<Rightarrow> False | Some a \<Rightarrow> dtype a \<noteq> Int32)
      then Inl (ValueError ''q_seqlen must have int32 datatype'')
      else if (case q_seqlen of None \<Rightarrow> False | Some a \<Rightarrow> length (shape a) \<noteq> 1)
      then Inl (ValueError ''q_seqlen must have a rank of 1'')
      else if (case q_seqlen of None \<Rightarrow> False | Some a \<Rightarrow> hd (shape a) \<noteq> sq ! 0)
      then Inl (ValueError ''q_seqlen must have same batch as Q'')
      else if (case kv_seqlen of None \<Rightarrow> False | Some a \<Rightarrow> dtype a \<noteq> Int32)
      then Inl (ValueError ''kv_seqlen must have int32 datatype'')
      else if (case kv_seqlen of None \<Rightarrow> False | Some a \<Rightarrow> length (shape a) \<noteq> 1)
      then Inl (ValueError ''kv_seq_rank must have a rank of 1'')
      else if (case kv_seqlen of None \<Rightarrow> False | Some a \<Rightarrow> hd (shape a) \<noteq> sq ! 0)
      then Inl (ValueError ''kv_seqlen must have same batch as Q'')
      else Inr ())"
proof (cases "length (shape query) = 4")
  case False
  then show ?thesis by (simp add: check_layout_def Let_def)
next
  case q4: True
  show ?thesis
  proof (cases "length (shape query) = length (shape key) \<and>
                length (shape key) = length (shape value)")
    case False
    then show ?thesis using q4
      by (simp add: check_layout_def Let_def check_eq_def and_then_Inl)
  next
    case True
    obtain q0 q1 q2 q3 where sq: "shape query = [q0, q1, q2, q3]"
      using q4 unpack4_len [of "shape query"] by auto
    obtain k0 k1 k2 k3 where sk: "shape key = [k0, k1, k2, k3]"
      using q4 True unpack4_len [of "shape key"] by auto
    obtain v0 v1 v2 v3 where sv: "shape value = [v0, v1, v2, v3]"
      using q4 True unpack4_len [of "shape value"] by auto
    show ?thesis
      unfolding check_layout_def Let_def check_eq_def bias_check_value sq sk sv
      by (cases layout; cases bias; cases q_seqlen; cases kv_seqlen)
         (simp_all add: and_then_if and_then_Inl and_then_Inr)
  qed
qed


text \<open>
  C5, as stated: the validator accepts only if the head counts of query, key and value
  agree pairwise. The source compares the head counts of key and value only, so a query
  with 4 heads is accepted with a key and a value of 2 heads.
\<close>

theorem check_layout_head_count_counterexample:
  "check_layout \<lparr>shape = [2, 8, 4, 64], dtype = Float16\<rparr>
     \<lparr>shape = [2, 8, 2, 64], dtype = Float16\<rparr> \<lparr>shape = [2, 8, 2, 64], dtype = Float16\<rparr>
     None None None BTNH = Inr ()"
  by (simp add: check_layout_def Let_def check_eq_def and_then_def)

text \<open>
  C5, amended: for both layouts the validator accepts if and only if query, key and value
  have rank 4 and one dtype, bfloat16 or float16; batch size and head size agree across
  query, key and value; key and value also agree on head count and sequence length (the
  query's head count is free); a bias has rank 4 with trailing axes (query sequence
  length, key sequence length); and a sequence-length vector is int32 of shape (batch).
  Otherwise it raises the error of the first check that fails, in this order: the rank of
  Q, the ranks of Q, K, V, the dtype of Q (NotImplementedError), the dtypes of Q, K, V,
  the batch, the head size, the heads of K and V, the sequence length of K and V, the
  unpacking of a bias whose rank is not 4 (a ValueError that names no quantity), the
  sequence lengths of the bias, then dtype, rank and batch of \<open>q_seqlen\<close> and of
  \<open>kv_seqlen\<close>; every error but the two named is a ValueError with the message of its
  check.
\<close>

theorem check_layout_accepts_iff:
  "(check_layout query key value bias q_seqlen kv_seqlen layout = Inr () \<longleftrightarrow>
     (\<exists>B qN kN T S H.
        shape query = (if layout = BNTH then [B, qN, T, H] else [B, T, qN, H]) \<and>
        shape key = (if layout = BNTH then [B, kN, S, H] else [B, S, kN, H]) \<and>
        shape value = shape key \<and>
        dtype query \<in> {BFloat16, Float16} \<and> dtype key = dtype query \<and>
        dtype value = dtype query \<and>
        (case bias of None \<Rightarrow> True | Some b \<Rightarrow> \<exists>bB bN. shape b = [bB, bN, T, S]) \<and>
        (case q_seqlen of None \<Rightarrow> True | Some a \<Rightarrow> dtype a = Int32 \<and> shape a = [B]) \<and>
        (case kv_seqlen of None \<Rightarrow> True | Some a \<Rightarrow> dtype a = Int32 \<and> shape a = [B])))
   \<and> check_layout query key value bias q_seqlen kv_seqlen layout =
     (let iN = (if layout = BNTH then 1 else 2); iT = (if layout = BNTH then 2 else 1);
          sq = shape query; sk = shape key; sv = shape value in
      if length sq \<noteq> 4 then Inl (ValueError ''Q must have a rank of 4'')
      else if \<not> (length sq = length sk \<and> length sk = length sv)
      then Inl (ValueError ''QKV rank must be same'')
      else if dtype query \<noteq> BFloat16 \<and> dtype query \<noteq> Float16
      then Inl (NotImplementedError ''Q must be fp16 or bf16'')
      else if \<not> (dtype query = dtype key \<and> dtype key = dtype value)
      then Inl (ValueError ''QKV dtype must be same'')
      else if \<not> (sq ! 0 = sk ! 0 \<and> sk ! 0 = sv ! 0)
      then Inl (ValueError ''QKV batch must be same'')
      else if \<not> (sq ! 3 = sk ! 3 \<and> sk ! 3 = sv ! 3)
      then Inl (ValueError ''QKV dim_per_head must be same'')
      else if sk ! iN \<noteq> sv ! iN then Inl (ValueError ''KV must have same number of heads'')
      else if sk ! iT \<noteq> sv ! iT then Inl (ValueError ''KV must have same seq length'')
      else if (case bias of None \<Rightarrow> False | Some b \<Rightarrow> length (shape b) \<noteq> 4)
      then Inl (ValueError ''unpack'')
      else if (case bias of None \<Rightarrow> False
               | Some b \<Rightarrow> shape b ! 2 \<noteq> sq ! iT \<or> shape b ! 3 \<noteq> sv ! iT)
      then Inl (ValueError ''Bias must have same seq length as QKV'')
      else if (case q_seqlen of None \<Rightarrow> False | Some a \<Rightarrow> dtype a \<noteq> Int32)
      then Inl (ValueError ''q_seqlen must have int32 datatype'')
      else if (case q_seqlen of None \<Rightarrow> False | Some a \<Rightarrow> length (shape a) \<noteq> 1)
      then Inl (ValueError ''q_seqlen must have a rank of 1'')
      else if (case q_seqlen of None \<Rightarrow> False | Some a \<Rightarrow> hd (shape a) \<noteq> sq ! 0)
      then Inl (ValueError ''q_seqlen must have same batch as Q'')
      else if (case kv_seqlen of None \<Rightarrow> False | Some a \<Rightarrow> dtype a \<noteq> Int32)
      then Inl (ValueError ''kv_seqlen must have int32 datatype'')
      else if (case kv_seqlen of None \<Rightarrow> False | Some a \<Rightarrow> length (shape a) \<noteq> 1)
      then Inl (ValueError ''kv_seq_rank must have a rank of 1'')
      else if (case kv_seqlen of None \<Rightarrow> False | Some a \<Rightarrow> hd (shape a) \<noteq> sq ! 0)
      then Inl (ValueError ''kv_seqlen must have same batch as Q'')
      else Inr ())"
proof (intro conjI)
  show "check_layout query key value bias q_seqlen kv_seqlen layout =
     (let iN = (if layout = BNTH then 1 else 2); iT = (if layout = BNTH then 2 else 1);
          sq = shape query; sk = shape key; sv = shape value in
      if length sq \<noteq> 4 then Inl (ValueError ''Q must have a rank of 4'')
      else if \<not> (length sq = length sk \<and> length sk = length sv)
      then Inl (ValueError ''QKV rank must be same'')
      else if dtype query \<noteq> BFloat16 \<and> dtype query \<noteq> Float16
      then Inl (NotImplementedError ''Q must be fp16 or bf16'')
      else if \<not> (dtype query = dtype key \<and> dtype key = dtype value)
      then Inl (ValueError ''QKV dtype must be same'')
      else if \<not> (sq ! 0 = sk ! 0 \<and> sk ! 0 = sv ! 0)
      then Inl (ValueError ''QKV batch must be same'')
      else if \<not> (sq ! 3 = sk ! 3 \<and> sk ! 3 = sv ! 3)
      then Inl (ValueError ''QKV dim_per_head must be same'')
      else if sk ! iN \<noteq> sv ! iN then Inl (ValueError ''KV must have same number of heads'')
      else if sk ! iT \<noteq> sv ! iT then Inl (ValueError ''KV must have same seq length'')
      else if (case bias of None \<Rightarrow> False | Some b \<Rightarrow> length (shape b) \<noteq> 4)
      then Inl (ValueError ''unpack'')
      else if (case bias of None \<Rightarrow> False
               | Some b \<Rightarrow> shape b ! 2 \<noteq> sq ! iT \<or> shape b ! 3 \<noteq> sv ! iT)
      then Inl (ValueError ''Bias must have same seq length as QKV'')
      else if (case q_seqlen of None \<Rightarrow> False | Some a \<Rightarrow> dtype a \<noteq> Int32)
      then Inl (ValueError ''q_seqlen must have int32 datatype'')
      else if (case q_seqlen of None \<Rightarrow> False | Some a \<Rightarrow> length (shape a) \<noteq> 1)
      then Inl (ValueError ''q_seqlen must have a rank of 1'')
      else if (case q_seqlen of None \<Rightarrow> False | Some a \<Rightarrow> hd (shape a) \<noteq> sq ! 0)
      then Inl (ValueError ''q_seqlen must have same batch as Q'')
      else if (case kv_seqlen of None \<Rightarrow> False | Some a \<Rightarrow> dtype a \<noteq> Int32)
      then Inl (ValueError ''kv_seqlen must have int32 datatype'')
      else if (case kv_seqlen of None \<Rightarrow> False | Some a \<Rightarrow> length (shape a) \<noteq> 1)
      then Inl (ValueError ''kv_seq_rank must have a rank of 1'')
      else if (case kv_seqlen of None \<Rightarrow> False | Some a \<Rightarrow> hd (shape a) \<noteq> sq ! 0)
      then Inl (ValueError ''kv_seqlen must have same batch as Q'')
      else Inr ())"
    by (rule check_layout_value)
next
  show "check_layout query key value bias q_seqlen kv_seqlen layout = Inr () \<longleftrightarrow>
     (\<exists>B qN kN T S H.
        shape query = (if layout = BNTH then [B, qN, T, H] else [B, T, qN, H]) \<and>
        shape key = (if layout = BNTH then [B, kN, S, H] else [B, S, kN, H]) \<and>
        shape value = shape key \<and>
        dtype query \<in> {BFloat16, Float16} \<and> dtype key = dtype query \<and>
        dtype value = dtype query \<and>
        (case bias of None \<Rightarrow> True | Some b \<Rightarrow> \<exists>bB bN. shape b = [bB, bN, T, S]) \<and>
        (case q_seqlen of None \<Rightarrow> True | Some a \<Rightarrow> dtype a = Int32 \<and> shape a = [B]) \<and>
        (case kv_seqlen of None \<Rightarrow> True | Some a \<Rightarrow> dtype a = Int32 \<and> shape a = [B]))"
    (is "?L \<longleftrightarrow> ?R")
  proof (cases "length (shape query) = 4 \<and> length (shape key) = 4 \<and> length (shape value) = 4")
    case False
    then have "\<not> ?L" using check_layout_not_rank4 by blast
    moreover have "\<not> ?R" using False by (auto split: if_splits)
    ultimately show ?thesis by blast
  next
    case True
    obtain q0 q1 q2 q3 where sq: "shape query = [q0, q1, q2, q3]"
      using True unpack4_len [of "shape query"] by auto
    obtain k0 k1 k2 k3 where sk: "shape key = [k0, k1, k2, k3]"
      using True unpack4_len [of "shape key"] by auto
    obtain v0 v1 v2 v3 where sv: "shape value = [v0, v1, v2, v3]"
      using True unpack4_len [of "shape value"] by auto
    show ?thesis
      unfolding check_layout_rank4 [OF sq sk sv]
      using sq sk sv by (cases layout) (simp_all, blast+)
  qed
qed

theorem check_layout_accepts_iff_witness:
  "check_layout (f16 [2, 4, 8, 64]) (f16 [2, 4, 16, 64]) (f16 [2, 4, 16, 64])
     (Some (f16 [1, 4, 8, 16])) (Some \<lparr>shape = [2], dtype = Int32\<rparr>) None BNTH = Inr ()
   \<and> check_layout (f16 [2, 4, 8, 64]) (f16 [2, 4, 16, 32]) (f16 [2, 4, 16, 64])
     None None None BNTH = Inl (ValueError ''QKV dim_per_head must be same'')
   \<and> check_layout (f16 [2, 4, 8, 64]) (f16 [2, 4, 16, 64]) (f16 [2, 4, 16, 64])
     (Some (f16 [4, 8, 16])) None None BNTH = Inl (ValueError ''unpack'')
   \<and> check_layout \<lparr>shape = [2, 4, 8, 64], dtype = Float32\<rparr> (f16 [2, 4, 16, 64])
     (f16 [2, 4, 16, 64]) None None None BNTH
     = Inl (NotImplementedError ''Q must be fp16 or bf16'')"
  using check_layout_accepts_iff [of "f16 [2, 4, 8, 64]" "f16 [2, 4, 16, 64]"
      "f16 [2, 4, 16, 64]" "Some (f16 [1, 4, 8, 16])" "Some \<lparr>shape = [2], dtype = Int32\<rparr>"
      None BNTH, THEN conjunct2]
    check_layout_accepts_iff [of "f16 [2, 4, 8, 64]" "f16 [2, 4, 16, 32]"
      "f16 [2, 4, 16, 64]" None None None BNTH, THEN conjunct2]
    check_layout_accepts_iff [of "f16 [2, 4, 8, 64]" "f16 [2, 4, 16, 64]"
      "f16 [2, 4, 16, 64]" "Some (f16 [4, 8, 16])" None None BNTH, THEN conjunct2]
    check_layout_accepts_iff [of "\<lparr>shape = [2, 4, 8, 64], dtype = Float32\<rparr>"
      "f16 [2, 4, 16, 64]" "f16 [2, 4, 16, 64]" None None None BNTH, THEN conjunct2]
  by (simp add: f16_def)

subsection \<open>Flash attention conditions\<close>

text \<open>
  C6, as stated: a version-too-low error is raised whenever the cuDNN version is below
  8904, independently of the other check. With head size 256 and version 8000 the
  function raises the unsupported-configuration error instead.
\<close>

theorem check_is_flash_attention_version_counterexample:
  "check_is_flash_attention \<lparr>shape = [1, 8, 4, 256], dtype = Float16\<rparr>
     \<lparr>shape = [1, 8, 4, 256], dtype = Float16\<rparr> 0 8000 False False
   = Inl (NotImplementedError ''Unsupported sequence length Q, KV and head dim'')"
  by (simp add: check_is_flash_attention_def and_then_def)

text \<open>
  C6, amended: on rank-4 query and key, with \<open>H\<close> the head size and \<open>T\<close>, \<open>S\<close> the two
  sequence lengths of the layout, the function raises the unsupported-configuration
  error unless \<open>H \<le> 128\<close>, \<open>H mod 8 = 0\<close> and, when training with a bias, \<open>T\<close> and \<open>S\<close> are
  even; when these hold it raises the version-too-low error exactly when the cuDNN version
  is below 8904; otherwise it succeeds.
\<close>

theorem check_is_flash_attention_spec:
  assumes "shape query = [q0, q1, q2, H]" and "shape key = [k0, k1, k2, k3]"
    and "T = (if layout = 1 then q2 else q1)" and "S = (if layout = 1 then k2 else k1)"
  shows "check_is_flash_attention query key layout cudnn_version has_bias is_training =
     (if \<not> (H \<le> 128 \<and> H mod 8 = 0 \<and> (\<not> (is_training \<and> has_bias) \<or> even T \<and> even S))
      then Inl (NotImplementedError ''Unsupported sequence length Q, KV and head dim'')
      else if cudnn_version < 8904
      then Inl (RuntimeError ''JAX requires cuDNN >= 8.9.4 to use flash cross attention.'')
      else Inr ())"
  using assms by (auto simp: check_is_flash_attention_def and_then_def Let_def)

theorem check_is_flash_attention_spec_witness:
  "check_is_flash_attention \<lparr>shape = [1, 128, 4, 64], dtype = Float16\<rparr>
     \<lparr>shape = [1, 256, 4, 64], dtype = Float16\<rparr> 0 8904 True True = Inr ()
   \<and> check_is_flash_attention \<lparr>shape = [1, 128, 4, 64], dtype = Float16\<rparr>
     \<lparr>shape = [1, 256, 4, 64], dtype = Float16\<rparr> 0 8903 True True
     = Inl (RuntimeError ''JAX requires cuDNN >= 8.9.4 to use flash cross attention.'')"
  using check_is_flash_attention_spec [of "\<lparr>shape = [1, 128, 4, 64], dtype = Float16\<rparr>"
      1 128 4 64 "\<lparr>shape = [1, 256, 4, 64], dtype = Float16\<rparr>" 1 256 4 64 128 0 256 8904 True True]
    check_is_flash_attention_spec [of "\<lparr>shape = [1, 128, 4, 64], dtype = Float16\<rparr>"
      1 128 4 64 "\<lparr>shape = [1, 256, 4, 64], dtype = Float16\<rparr>" 1 256 4 64 128 0 256 8903 True True]
  by simp


subsection \<open>The operator: bias gradient flag and sliding window\<close>

lemma upper_BTNH: "upper ''BTNH'' = ''BTNH''"
  by code_simp

lemma upper_BNTH: "upper ''BNTH'' = ''BNTH''"
  by code_simp

lemmas operator_eval =
  dot_product_attention_def check_cudnn_version_def and_then_def normalize_layout_def
  upper_BTNH upper_BNTH Let_def replace_S_T_def AttentionLayout_of_name_def has_padding_def
  fold_mask_into_bias_def reshape_to_4d_def check_layout_def check_eq_def
  should_export_dbias_def dot_product_attention_fwd_def check_is_flash_attention_def
  ampere_env_def f16_def

text \<open>
  C3, as stated: \<open>has_dbias\<close> holds if and only if the batch and head extents of the bias
  equal those of the query. With query (2, 8, 4, 64) in layout BTNH and bias (2, 4, 8, 8)
  both extents agree, and the flag is false.
\<close>

theorem has_dbias_equal_extents_counterexample:
  "dot_product_attention ampere_env (f16 [2, 8, 4, 64]) (f16 [2, 8, 4, 64]) (f16 [2, 8, 4, 64])
     (Some (f16 [2, 4, 8, 8])) None None None 1 NO_MASK 42 0 ''BTNH'' None =
   Inr \<lparr>operands = [f16 [2, 8, 4, 64], f16 [2, 8, 4, 64], f16 [2, 8, 4, 64],
          f16 [2, 4, 8, 8], f16 [0], f16 [0]],
        params = [(''scale'', PFloat 1), (''seed'', PInt 42), (''dropout_rate'', PFloat 0),
          (''variadic_args'', PTuple [PBool True, PBool False]),
          (''mask_type'', PMaskType NO_MASK), (''layout'', PInt 0),
          (''sliding_window_length'', PNone), (''is_training'', PBool False)]\<rparr>"
  by (simp add: operator_eval)

text \<open>
  C3, amended: for every call of the public operator in layout BTNH that is accepted with
  a bias (after the mask is folded in), the bias has rank 4, \<open>has_bias\<close> is true and
  \<open>has_dbias\<close> is true if and only if the batch extent of the bias is 1 and its head extent
  equals the head count of the query.
\<close>

theorem has_dbias_flag:
  assumes "dot_product_attention ev query key value bias mask_arr q_seqlen kv_seqlen scale
             mask_type seed dropout_rate qkv_layout sliding_window_length = Inr call"
    and "normalize_layout qkv_layout = Inr BTNH"
    and "fold_mask_into_bias ev query bias mask_arr = Inr (Some b)"
  shows "\<exists>b_B b_N b_T b_S q_B q_T q_N q_H.
           shape b = [b_B, b_N, b_T, b_S] \<and> shape query = [q_B, q_T, q_N, q_H] \<and>
           map_of (params call) ''variadic_args'' =
             Some (PTuple [PBool True, PBool (b_B = 1 \<and> b_N = q_N)])"
proof -
  from assms have cl: "check_layout query key value (Some b) q_seqlen kv_seqlen BTNH = Inr ()"
    by (auto simp: dot_product_attention_def and_then_def Let_def
        split: sum.splits option.splits if_splits)
  then have len: "length (shape query) = 4 \<and> length (shape key) = 4 \<and> length (shape value) = 4"
    using check_layout_not_rank4 by blast
  obtain q0 q1 q2 q3 where sq: "shape query = [q0, q1, q2, q3]"
    using len unpack4_len [of "shape query"] by auto
  obtain k0 k1 k2 k3 where sk: "shape key = [k0, k1, k2, k3]"
    using len unpack4_len [of "shape key"] by auto
  obtain v0 v1 v2 v3 where sv: "shape value = [v0, v1, v2, v3]"
    using len unpack4_len [of "shape value"] by auto
  obtain bB bN bT bS where sb: "shape b = [bB, bN, bT, bS]"
    using cl unfolding check_layout_rank4 [OF sq sk sv] by auto
  show ?thesis
    using assms sq sb
    by (auto simp: dot_product_attention_def dot_product_attention_fwd_def and_then_def
        Let_def should_export_dbias_def split: sum.splits option.splits if_splits)
qed

theorem has_dbias_flag_witness:
  "dot_product_attention ampere_env (f16 [2, 8, 4, 64]) (f16 [2, 8, 4, 64])
     (f16 [2, 8, 4, 64]) (Some (f16 [4, 8, 8])) None None None 1 NO_MASK 42 0 ''BTNH'' None =
   Inr \<lparr>operands = [f16 [2, 8, 4, 64], f16 [2, 8, 4, 64], f16 [2, 8, 4, 64],
          f16 [1, 4, 8, 8], f16 [0], f16 [0]],
        params = [(''scale'', PFloat 1), (''seed'', PInt 42), (''dropout_rate'', PFloat 0),
          (''variadic_args'', PTuple [PBool True, PBool True]),
          (''mask_type'', PMaskType NO_MASK), (''layout'', PInt 0),
          (''sliding_window_length'', PNone), (''is_training'', PBool False)]\<rparr>
   \<and> normalize_layout ''BTNH'' = Inr BTNH
   \<and> fold_mask_into_bias ampere_env (f16 [2, 8, 4, 64]) (Some (f16 [4, 8, 8])) None
       = Inr (Some (f16 [1, 4, 8, 8]))
   \<and> PBool True = PBool ((1::nat) = 1 \<and> (4::nat) = 4)"
proof -
  have h1: "dot_product_attention ampere_env (f16 [2, 8, 4, 64]) (f16 [2, 8, 4, 64])
     (f16 [2, 8, 4, 64]) (Some (f16 [4, 8, 8])) None None None 1 NO_MASK 42 0 ''BTNH'' None =
   Inr \<lparr>operands = [f16 [2, 8, 4, 64], f16 [2, 8, 4, 64], f16 [2, 8, 4, 64],
          f16 [1, 4, 8, 8], f16 [0], f16 [0]],
        params = [(''scale'', PFloat 1), (''seed'', PInt 42), (''dropout_rate'', PFloat 0),
          (''variadic_args'', PTuple [PBool True, PBool True]),
          (''mask_type'', PMaskType NO_MASK), (''layout'', PInt 0),
          (''sliding_window_length'', PNone), (''is_training'', PBool False)]\<rparr>"
    by (simp add: operator_eval)
  have h2: "normalize_layout ''BTNH'' = Inr BTNH"
    by (simp add: operator_eval)
  have h3: "fold_mask_into_bias ampere_env (f16 [2, 8, 4, 64]) (Some (f16 [4, 8, 8])) None
              = Inr (Some (f16 [1, 4, 8, 8]))"
    by (simp add: operator_eval)
  show ?thesis
    using has_dbias_flag [OF h1 h2 h3] h1 h2 h3 by (simp add: f16_def)
qed

text \<open>
  In layout BNTH the operator hands the member of the enumeration to
  \<open>should_export_dbias\<close>, which compares it with an integer and so reads the query's
  axis 2, the sequence length: a bias (1, 4, 8, 8) for a query of 4 heads gets no gradient.
\<close>

lemma has_dbias_bnth_reads_axis_2:
  "dot_product_attention ampere_env (f16 [2, 4, 8, 64]) (f16 [2, 4, 8, 64]) (f16 [2, 4, 8, 64])
     (Some (f16 [1, 4, 8, 8])) None None None 1 NO_MASK 42 0 ''BNTH'' None =
   Inr \<lparr>operands = [f16 [2, 4, 8, 64], f16 [2, 4, 8, 64], f16 [2, 4, 8, 64],
          f16 [1, 4, 8, 8], f16 [0], f16 [0]],
        params = [(''scale'', PFloat 1), (''seed'', PInt 42), (''dropout_rate'', PFloat 0),
          (''variadic_args'', PTuple [PBool True, PBool False]),
          (''mask_type'', PMaskType NO_MASK), (''layout'', PInt 1),
          (''sliding_window_length'', PNone), (''is_training'', PBool False)]\<rparr>
   \<and> should_export_dbias [1, 4, 8, 8] [2, 4, 8, 64] (LayoutInt 1) = Inr True"
  by (simp add: operator_eval)

text \<open>
  C4, as stated: a call with \<open>sliding_window_length = 0\<close> succeeds with windowing disabled.
  The operator rejects it.
\<close>

theorem sliding_window_zero_counterexample:
  "dot_product_attention ampere_env (f16 [2, 8, 4, 64]) (f16 [2, 8, 4, 64]) (f16 [2, 8, 4, 64])
     None None None None 1 NO_MASK 42 0 ''BTNH'' (Some 0)
   = Inl (ValueError ''Require sliding_window_length > 0'')"
  by (simp add: operator_eval)

text \<open>
  C4, amended: every call of the operator with \<open>sliding_window_length \<le> 0\<close> (0 included)
  fails before any dispatch; \<open>sliding_window_length = None\<close> is never a reason to fail (the
  call fails with None exactly when it fails with a positive length, and with the same
  error) and is passed on as None; the backend configuration serialises None as 0, the
  same configuration that it builds for the length 0.
\<close>

theorem sliding_window_length_validation:
  "(n \<le> 0 \<longrightarrow>
      (\<exists>e. dot_product_attention ev query key val bias mask_arr q_seqlen kv_seqlen scale
             mask_type seed dropout_rate qkv_layout (Some n) = Inl e))
   \<and> (0 < n \<longrightarrow>
        (dot_product_attention ev query key val bias mask_arr q_seqlen kv_seqlen scale
           mask_type seed dropout_rate qkv_layout None = Inl e'
         \<longleftrightarrow> dot_product_attention ev query key val bias mask_arr q_seqlen kv_seqlen scale
           mask_type seed dropout_rate qkv_layout (Some n) = Inl e'))
   \<and> (dot_product_attention ev query key val bias mask_arr q_seqlen kv_seqlen scale
           mask_type seed dropout_rate qkv_layout None = Inr call \<longrightarrow>
         map_of (params call) ''sliding_window_length'' = Some PNone)
   \<and> create_dot_product_attention_backend_config batch num_heads seq_q seq_kv dt scale seed
        dropout_rate mask_type layout None is_bwd
      = create_dot_product_attention_backend_config batch num_heads seq_q seq_kv dt scale seed
        dropout_rate mask_type layout (Some 0) is_bwd"
  by (auto simp: dot_product_attention_def dot_product_attention_fwd_def Let_def
      and_then_def create_dot_product_attention_backend_config_def
      split: sum.splits option.splits if_splits)

theorem sliding_window_length_validation_witness:
  "dot_product_attention ampere_env (f16 [2, 8, 4, 64]) (f16 [2, 8, 4, 64]) (f16 [2, 8, 4, 64])
     None None None None 1 NO_MASK 42 0 ''BTNH'' (Some (- 1))
     = Inl (ValueError ''Require sliding_window_length > 0'')
   \<and> dot_product_attention ampere_env (f16 [2, 8, 4, 64]) (f16 [2, 8, 4, 64])
       (f16 [2, 8, 4, 64]) None None None None 1 NO_MASK 42 0 ''BTNH'' None
     = Inr \<lparr>operands = [f16 [2, 8, 4, 64], f16 [2, 8, 4, 64], f16 [2, 8, 4, 64],
          f16 [0], f16 [0], f16 [0]],
        params = [(''scale'', PFloat 1), (''seed'', PInt 42), (''dropout_rate'', PFloat 0),
          (''variadic_args'', PTuple [PBool False, PBool False]),
          (''mask_type'', PMaskType NO_MASK), (''layout'', PInt 0),
          (''sliding_window_length'', PNone), (''is_training'', PBool False)]\<rparr>
   \<and> (- 1 :: int) \<le> 0 \<and> (0 :: int) < 3"
  using sliding_window_length_validation [where n = "- 1" and ev = ampere_env
      and query = "f16 [2, 8, 4, 64]" and key = "f16 [2, 8, 4, 64]"
      and val = "f16 [2, 8, 4, 64]" and bias = None and mask_arr = None
      and q_seqlen = None and kv_seqlen = None and scale = 1 and mask_type = NO_MASK
      and seed = 42 and dropout_rate = 0 and qkv_layout = "''BTNH''"]
    sliding_window_length_validation [where n = 3 and ev = ampere_env
      and query = "f16 [2, 8, 4, 64]" and key = "f16 [2, 8, 4, 64]"
      and val = "f16 [2, 8, 4, 64]" and bias = None and mask_arr = None
      and q_seqlen = None and kv_seqlen = None and scale = 1 and mask_type = NO_MASK
      and seed = 42 and dropout_rate = 0 and qkv_layout = "''BTNH''"]
  by (simp add: operator_eval)

subsection \<open>Backend configuration\<close>

lemma str_nat_digits:
  "str_nat 0 = ''0''" "str_nat 1 = ''1''" "str_nat 2 = ''2''" "str_nat 3 = ''3''"
  by code_simp+

lemma str_nat_Suc_0: "str_nat (Suc 0) = ''1''"
  using str_nat_digits(2) by simp

lemma convert_mask_type_to_string_explicit:
  "convert_mask_type_to_string mask_type =
     (case mask_type of
        NO_MASK \<Rightarrow> ''NO_MASK'' | PADDING \<Rightarrow> ''PADDING''
      | CAUSAL \<Rightarrow> ''CAUSAL'' | PADDING_CAUSAL \<Rightarrow> ''PADDING_CAUSAL''
      | ALIBI \<Rightarrow> ''ALIBI'')"
  by (cases mask_type) simp_all

lemma str_nat_value:
  "foldl (\<lambda>a c. 10 * a + (of_char c - 48)) 0 (str_nat n) = n"
proof (induction n rule: str_nat.induct)
  case (1 n)
  show ?case
  proof (cases "n < 10")
    case True
    then have "(of_char (char_of (48 + n)) :: nat) = 48 + n"
      by (simp add: of_char_of)
    then show ?thesis using True by (subst str_nat.simps) simp
  next
    case False
    have d: "(of_char (char_of (48 + n mod 10)) :: nat) = 48 + n mod 10"
    proof -
      have "48 + n mod 10 < 256" by (rule less_trans [of _ 58]) simp_all
      then show ?thesis by (simp only: of_char_of mod_less)
    qed
    from False "1.IH" have "foldl (\<lambda>a c. 10 * a + (of_char c - 48)) 0 (str_nat (n div 10)) = n div 10"
      by simp
    then show ?thesis using False d by (subst str_nat.simps) simp
  qed
qed


text \<open>
  C9. For every element type that the mapping knows (BF16, F16) the builder returns a
  record whose inner block holds the fixed algorithm block, the scale, the dropout rate,
  the intermediate tensor shape with the element type name, the dimensions
  (batch, heads, q_len, kv_len) as decimal strings and minor-to-major layout
  [3, 2, 1, 0], the seed, the flash attention flag set to true, the mask type string, the
  sliding window length (0 for None), and then exactly the two forward dot-dimension
  blocks when \<open>is_bwd\<close> is false or exactly the four backward blocks when it is true, each
  block with the contracting and batch axes of the table of the layout.
\<close>

theorem backend_config_record:
  assumes "dt = BF16 \<or> dt = F16"
  shows "\<exists>cfg shape_desc lay.
     create_dot_product_attention_backend_config batch num_heads seq_q seq_kv dt fmha_scale
       seed dropout_rate mask_type layout sliding_window_length is_bwd
     = Inr (JObject
             [(''operation_queue_id'', JString ''0''),
              (''wait_on_operation_queues'', JList []),
              (''cudnn_fmha_backend_config'', JObject cfg)]) \<and>
     map fst cfg =
       [''algorithm'', ''fmha_scale'', ''dropout_rate'', ''intermediate_tensor_shape'',
        ''seed'', ''is_flash_attention'', ''mask_type'', ''sliding_window_length''] @
       (if is_bwd
        then [''bmm1_grad_gemm1_dot_dimension_numbers'',
              ''bmm1_grad_gemm2_dot_dimension_numbers'',
              ''bmm2_grad_gemm1_dot_dimension_numbers'',
              ''bmm2_grad_gemm2_dot_dimension_numbers'']
        else [''bmm1_dot_dimension_numbers'', ''bmm2_dot_dimension_numbers'']) \<and>
     map_of cfg ''algorithm'' =
       Some (JObject
         [(''algo_id'', JString ''0''),
          (''math_type'', JString ''TENSOR_OP_MATH''),
          (''tuning_knobs'', JObject [(''17'', JString ''1''), (''24'', JString ''0'')]),
          (''is_cudnn_frontend'', JBool True),
          (''workspace_size'', JString ''0'')]) \<and>
     map_of cfg ''fmha_scale'' = Some (JFloat fmha_scale) \<and>
     map_of cfg ''dropout_rate'' = Some (JFloat dropout_rate) \<and>
     map_of cfg ''intermediate_tensor_shape'' = Some (JObject shape_desc) \<and>
     map_of shape_desc ''element_type'' =
       Some (JString (if dt = BF16 then ''BF16'' else ''F16'')) \<and>
     map_of shape_desc ''dimensions'' =
       Some (JList (map (\<lambda>n. JString (str_nat n)) [batch, num_heads, seq_q, seq_kv])) \<and>
     map (\<lambda>n. foldl (\<lambda>a c. 10 * a + (of_char c - 48)) 0 (str_nat n))
       [batch, num_heads, seq_q, seq_kv] = [batch, num_heads, seq_q, seq_kv] \<and>
     map_of shape_desc ''layout'' = Some (JObject lay) \<and>
     map_of lay ''minor_to_major'' = Some (JList (map JString [''3'', ''2'', ''1'', ''0''])) \<and>
     map_of cfg ''seed'' = Some (JInt seed) \<and>
     map_of cfg ''is_flash_attention'' = Some (JBool True) \<and>
     map_of cfg ''mask_type'' =
       Some (JString (case mask_type of
                        NO_MASK \<Rightarrow> ''NO_MASK'' | PADDING \<Rightarrow> ''PADDING''
                      | CAUSAL \<Rightarrow> ''CAUSAL'' | PADDING_CAUSAL \<Rightarrow> ''PADDING_CAUSAL''
                      | ALIBI \<Rightarrow> ''ALIBI'')) \<and>
     map_of cfg ''sliding_window_length'' =
       Some (JInt (case sliding_window_length of None \<Rightarrow> 0 | Some n \<Rightarrow> n)) \<and>
     (let blk = (\<lambda>lc rc lb rb.
            Some (JObject
              [(''lhs_contracting_dimensions'', JList [JString lc]),
               (''rhs_contracting_dimensions'', JList [JString rc]),
               (''lhs_batch_dimensions'', JList (map JString lb)),
               (''rhs_batch_dimensions'', JList (map JString rb))])) in
      map (map_of cfg)
        [''bmm1_dot_dimension_numbers'', ''bmm2_dot_dimension_numbers'',
         ''bmm1_grad_gemm1_dot_dimension_numbers'', ''bmm1_grad_gemm2_dot_dimension_numbers'',
         ''bmm2_grad_gemm1_dot_dimension_numbers'', ''bmm2_grad_gemm2_dot_dimension_numbers'']
      = (if is_bwd
         then if layout = 1
              then [None, None,
                    blk ''2'' ''2'' [''0'', ''1''] [''0'', ''1''],
                    blk ''3'' ''2'' [''0'', ''1''] [''0'', ''1''],
                    blk ''2'' ''2'' [''0'', ''1''] [''0'', ''1''],
                    blk ''3'' ''3'' [''0'', ''1''] [''0'', ''1'']]
              else [None, None,
                    blk ''2'' ''1'' [''0'', ''1''] [''0'', ''2''],
                    blk ''3'' ''1'' [''0'', ''1''] [''0'', ''2''],
                    blk ''2'' ''1'' [''0'', ''1''] [''0'', ''2''],
                    blk ''3'' ''3'' [''0'', ''2''] [''0'', ''2'']]
         else if layout = 1
              then [blk ''3'' ''3'' [''0'', ''1''] [''0'', ''1''],
                    blk ''3'' ''2'' [''0'', ''1''] [''0'', ''1''],
                    None, None, None, None]
              else [blk ''3'' ''3'' [''0'', ''2''] [''0'', ''2''],
                    blk ''3'' ''1'' [''0'', ''1''] [''0'', ''2''],
                    None, None, None, None])) \<and>
     map (map_of cfg) (if is_bwd then drop 2 dot_keys else take 2 dot_keys) =
       map (\<lambda>d. Some (dot_dimension_numbers d))
         (if is_bwd then drop 2 (if layout = 1 then bnth_dims else btnh_dims)
          else take 2 (if layout = 1 then bnth_dims else btnh_dims))"
  using assms
  by (cases is_bwd; cases "layout = 1"; cases sliding_window_length)
     (auto simp: create_dot_product_attention_backend_config_def and_then_def Let_def
      element_type_to_backend_config_type_mapping_def dot_keys_def bnth_dims_def btnh_dims_def
      intermediate_layout_def algorithm_block_def str_nat_digits str_nat_Suc_0
      convert_mask_type_to_string_explicit str_nat_value)


theorem backend_config_record_witness:
  "(F16 = BF16 \<or> F16 = F16)
   \<and> (\<exists>cfg shape_desc.
         create_dot_product_attention_backend_config 2 4 8 16 F16 1 42 0 CAUSAL 0
               (Some 3) False
             = Inr (JObject
                 [(''operation_queue_id'', JString ''0''),
                  (''wait_on_operation_queues'', JList []),
                  (''cudnn_fmha_backend_config'', JObject cfg)]) \<and>
           map fst cfg =
             [''algorithm'', ''fmha_scale'', ''dropout_rate'', ''intermediate_tensor_shape'',
              ''seed'', ''is_flash_attention'', ''mask_type'', ''sliding_window_length'',
              ''bmm1_dot_dimension_numbers'', ''bmm2_dot_dimension_numbers''] \<and>
           map_of cfg ''intermediate_tensor_shape'' = Some (JObject shape_desc) \<and>
           map_of shape_desc ''dimensions'' =
             Some (JList [JString ''2'', JString ''4'', JString ''8'', JString ''16'']) \<and>
           map_of cfg ''mask_type'' = Some (JString ''CAUSAL'') \<and>
           map_of cfg ''sliding_window_length'' = Some (JInt 3) \<and>
           map_of cfg ''bmm2_dot_dimension_numbers'' =
             Some (JObject
              [(''lhs_contracting_dimensions'', JList [JString ''3'']),
               (''rhs_contracting_dimensions'', JList [JString ''1'']),
               (''lhs_batch_dimensions'', JList [JString ''0'', JString ''1'']),
               (''rhs_batch_dimensions'', JList [JString ''0'', JString ''2''])]))"
proof -
  have h: "F16 = BF16 \<or> F16 = F16" by simp
  have d: "str_nat 4 = ''4''" "str_nat 8 = ''8''" "str_nat 16 = ''16''"
    by code_simp+
  from backend_config_record [OF h, of 2 4 8 16 1 42 0 CAUSAL 0 "Some 3" False]
  show ?thesis
    by (auto simp: Let_def str_nat_digits d)
qed

subsection \<open>Forward custom call\<close>

lemma custom_name_table:
  "length custom_name_maps = 8 \<and> distinct (map fst custom_name_maps)
   \<and> distinct (map snd custom_name_maps)"
  by (simp add: custom_name_maps_def)

lemma get_custom_call_name_total:
  "\<exists>name. get_custom_call_name has_bias has_dropout is_bwd = Inr name"
  by (cases has_bias; cases has_dropout; cases is_bwd)
     (simp_all add: get_custom_call_name_def custom_name_maps_def)

lemma get_custom_call_name_table:
  "get_custom_call_name has_bias has_dropout is_bwd = Inr name \<longleftrightarrow>
   map_of custom_name_maps (is_bwd, has_dropout, has_bias) = Some name"
  by (auto simp: get_custom_call_name_def split: option.splits)

lemma custom_name_entries:
  "map (map_of custom_name_maps)
     [(False, False, False), (False, False, True), (False, True, False), (False, True, True),
      (True, False, False), (True, False, True), (True, True, False), (True, True, True)]
   = map Some
     [''__cudnn$fmhaSoftmax'', ''__cudnn$fmhaScaleBiasSoftmax'',
      ''__cudnn$fmhaSoftmaxDropout'', ''__cudnn$fmhaScaleBiasSoftmaxDropout'',
      ''__cudnn$fmhaSoftmaxBackward'', ''__cudnn$fmhaScaleBiasSoftmaxBackward'',
      ''__cudnn$fmhaSoftmaxDropoutBackward'', ''__cudnn$fmhaScaleBiasSoftmaxDropoutBackward'']"
  by (simp add: custom_name_maps_def)

lemma fwd_name_explicit:
  "get_custom_call_name has_bias has_dropout False =
     Inr (if has_bias
          then if has_dropout then ''__cudnn$fmhaScaleBiasSoftmaxDropout''
               else ''__cudnn$fmhaScaleBiasSoftmax''
          else if has_dropout then ''__cudnn$fmhaSoftmaxDropout''
               else ''__cudnn$fmhaSoftmax'')"
  by (cases has_bias; cases has_dropout)
     (simp_all add: get_custom_call_name_def custom_name_maps_def)

text \<open>
  C8. The table of call names has 8 entries, one for each key
  \<open>(is_bwd, has_dropout, has_bias)\<close>, with distinct names, and \<open>get_custom_call_name\<close>
  returns the entry of its key. For rank-4 query and key of a supported element type the
  forward lowering emits one custom call whose name is the table entry at
  \<open>(False, dropout_rate > 0, has_bias)\<close>, whose operands are query, key, value, then the
  bias only with \<open>has_bias\<close>, then \<open>q_seqlen\<close> and \<open>kv_seqlen\<close> only for the mask types
  PADDING and PADDING_CAUSAL, whose result types are the output of shape (B, N, T, H), the
  softmax statistics (B, N, T) in F32 only in training, and the workspace; the returned
  output is the first result under the transpose of the layout, which gives back the shape
  of the query.
\<close>

theorem fwd_lowering_spec:
  assumes "v_shape query = [q0, q1, q2, q3]" and "v_shape key = [k0, k1, k2, k3]"
    and "v_elem query = BF16 \<or> v_elem query = F16"
  shows "\<exists>call perm B N T H.
     dot_product_attention_fwd_cuda_lowering query key value bias q_seqlen kv_seqlen scale seed
       dropout_rate (has_bias, has_dbias) mask_type layout sliding_window_length is_training
       = Inr (call, Transposed 0 perm # (if is_training then [Plain 1] else [])) \<and>
     get_custom_call_name has_bias (dropout_rate > 0) False = Inr (call_target_name call) \<and>
     map_of custom_name_maps (False, dropout_rate > 0, has_bias) = Some (call_target_name call) \<and>
     call_target_name call =
       (if has_bias
        then if dropout_rate > 0 then ''__cudnn$fmhaScaleBiasSoftmaxDropout''
             else ''__cudnn$fmhaScaleBiasSoftmax''
        else if dropout_rate > 0 then ''__cudnn$fmhaSoftmaxDropout''
             else ''__cudnn$fmhaSoftmax'') \<and>
     call_operands call =
       [query, key, value] @ (if has_bias then [bias] else []) @
       (if has_padding mask_type then [q_seqlen, kv_seqlen] else []) \<and>
     (has_padding mask_type \<longleftrightarrow> mask_type = PADDING \<or> mask_type = PADDING_CAUSAL) \<and>
     result_types call =
       [([B, N, T, H], v_elem query)] @ (if is_training then [([B, N, T], F32)] else []) @
       [([0], UI8)] \<and>
     [B, N, T, H] = (if layout = 1 then [q0, q1, q2, q3] else [q0, q2, q1, q3]) \<and>
     perm = (if layout = 1 then [0, 1, 2, 3] else [0, 2, 1, 3]) \<and>
     hd (result_layouts call) = (if layout = 1 then [3, 2, 1, 0] else [3, 1, 2, 0]) \<and>
     transpose_shape perm [B, N, T, H] = v_shape query \<and>
     length custom_name_maps = 8 \<and> distinct (map fst custom_name_maps) \<and>
     distinct (map snd custom_name_maps) \<and>
     map (map_of custom_name_maps)
       [(False, False, False), (False, False, True), (False, True, False), (False, True, True),
        (True, False, False), (True, False, True), (True, True, False), (True, True, True)]
     = map Some
       [''__cudnn$fmhaSoftmax'', ''__cudnn$fmhaScaleBiasSoftmax'',
        ''__cudnn$fmhaSoftmaxDropout'', ''__cudnn$fmhaScaleBiasSoftmaxDropout'',
        ''__cudnn$fmhaSoftmaxBackward'', ''__cudnn$fmhaScaleBiasSoftmaxBackward'',
        ''__cudnn$fmhaSoftmaxDropoutBackward'',
        ''__cudnn$fmhaScaleBiasSoftmaxDropoutBackward'']"
proof -
  obtain name where n: "get_custom_call_name has_bias (dropout_rate > 0) False = Inr name"
    using get_custom_call_name_total by blast
  have nx: "name =
       (if has_bias
        then if dropout_rate > 0 then ''__cudnn$fmhaScaleBiasSoftmaxDropout''
             else ''__cudnn$fmhaScaleBiasSoftmax''
        else if dropout_rate > 0 then ''__cudnn$fmhaSoftmaxDropout''
             else ''__cudnn$fmhaSoftmax'')"
    using n unfolding fwd_name_explicit by simp
  have t: "map_of custom_name_maps (False, dropout_rate > 0, has_bias) = Some name"
    using n by (simp only: get_custom_call_name_table)
  obtain cfg where c: "create_dot_product_attention_backend_config q0
      (if layout = 1 then q1 else q2) (if layout = 1 then q2 else q1)
      (if layout = 1 then k2 else k1) (v_elem query) scale seed
      dropout_rate mask_type layout sliding_window_length False = Inr cfg"
    using assms(3)
    by (auto simp: create_dot_product_attention_backend_config_def and_then_def Let_def
        element_type_to_backend_config_type_mapping_def)
  have "\<exists>call perm B N T H.
     dot_product_attention_fwd_cuda_lowering query key value bias q_seqlen kv_seqlen scale seed
       dropout_rate (has_bias, has_dbias) mask_type layout sliding_window_length is_training
       = Inr (call, Transposed 0 perm # (if is_training then [Plain 1] else [])) \<and>
     call_target_name call = name \<and>
     call_operands call =
       [query, key, value] @ (if has_bias then [bias] else []) @
       (if has_padding mask_type then [q_seqlen, kv_seqlen] else []) \<and>
     result_types call =
       [([B, N, T, H], v_elem query)] @ (if is_training then [([B, N, T], F32)] else []) @
       [([0], UI8)] \<and>
     [B, N, T, H] = (if layout = 1 then [q0, q1, q2, q3] else [q0, q2, q1, q3]) \<and>
     perm = (if layout = 1 then [0, 1, 2, 3] else [0, 2, 1, 3]) \<and>
     hd (result_layouts call) = (if layout = 1 then [3, 2, 1, 0] else [3, 1, 2, 0]) \<and>
     transpose_shape perm [B, N, T, H] = v_shape query"
    using assms n c
    by (auto simp: dot_product_attention_fwd_cuda_lowering_def and_then_def Let_def
        transpose_shape_def)
  then obtain call perm B N T H where
    r: "dot_product_attention_fwd_cuda_lowering query key value bias q_seqlen kv_seqlen scale
         seed dropout_rate (has_bias, has_dbias) mask_type layout sliding_window_length
         is_training
       = Inr (call, Transposed 0 perm # (if is_training then [Plain 1] else []))"
     "call_target_name call = name"
     "call_operands call =
       [query, key, value] @ (if has_bias then [bias] else []) @
       (if has_padding mask_type then [q_seqlen, kv_seqlen] else [])"
     "result_types call =
       [([B, N, T, H], v_elem query)] @ (if is_training then [([B, N, T], F32)] else []) @
       [([0], UI8)]"
     "[B, N, T, H] = (if layout = 1 then [q0, q1, q2, q3] else [q0, q2, q1, q3])"
     "perm = (if layout = 1 then [0, 1, 2, 3] else [0, 2, 1, 3])"
     "hd (result_layouts call) = (if layout = 1 then [3, 2, 1, 0] else [3, 1, 2, 0])"
     "transpose_shape perm [B, N, T, H] = v_shape query"
    by blast
  have p: "has_padding mask_type \<longleftrightarrow> mask_type = PADDING \<or> mask_type = PADDING_CAUSAL"
    by (simp add: has_padding_def)
  show ?thesis
    apply (rule exI [of _ call], rule exI [of _ perm], rule exI [of _ B], rule exI [of _ N],
        rule exI [of _ T], rule exI [of _ H])
    using r n nx t p custom_name_table custom_name_entries
    by (simp only: simp_thms)
qed


theorem fwd_lowering_spec_witness:
  "v_shape (f16_value [2, 8, 4, 64]) = [2, 8, 4, 64]
   \<and> (v_elem (f16_value [2, 8, 4, 64]) = BF16 \<or> v_elem (f16_value [2, 8, 4, 64]) = F16)
   \<and> (\<exists>call. dot_product_attention_fwd_cuda_lowering (f16_value [2, 8, 4, 64])
          (f16_value [2, 8, 4, 64]) (f16_value [2, 8, 4, 64]) (f16_value [1, 4, 8, 8])
          (f16_value [0]) (f16_value [0]) 1 42 0 (True, False) NO_MASK 0 None True
        = Inr (call, [Transposed 0 [0, 2, 1, 3], Plain 1]) \<and>
        call_target_name call = ''__cudnn$fmhaScaleBiasSoftmax'' \<and>
        call_operands call =
          [f16_value [2, 8, 4, 64], f16_value [2, 8, 4, 64], f16_value [2, 8, 4, 64],
           f16_value [1, 4, 8, 8]] \<and>
        result_types call = [([2, 4, 8, 64], F16), ([2, 4, 8], F32), ([0], UI8)])"
proof -
  have h1: "v_shape (f16_value [2, 8, 4, 64]) = [2, 8, 4, 64]"
    by (simp add: f16_value_def)
  have h3: "v_elem (f16_value [2, 8, 4, 64]) = BF16 \<or> v_elem (f16_value [2, 8, 4, 64]) = F16"
    by (simp add: f16_value_def)
  from fwd_lowering_spec [OF h1 h1 h3, of "f16_value [2, 8, 4, 64]" "f16_value [1, 4, 8, 8]"
        "f16_value [0]" "f16_value [0]" 1 42 0 True False NO_MASK 0 None True]
  obtain call perm B N T H where
    l: "dot_product_attention_fwd_cuda_lowering (f16_value [2, 8, 4, 64])
          (f16_value [2, 8, 4, 64]) (f16_value [2, 8, 4, 64]) (f16_value [1, 4, 8, 8])
          (f16_value [0]) (f16_value [0]) 1 42 0 (True, False) NO_MASK 0 None True
        = Inr (call, [Transposed 0 perm, Plain 1])"
    and n: "get_custom_call_name True False False = Inr (call_target_name call)"
    and o: "call_operands call =
          [f16_value [2, 8, 4, 64], f16_value [2, 8, 4, 64], f16_value [2, 8, 4, 64],
           f16_value [1, 4, 8, 8]]"
    and r: "result_types call = [([B, N, T, H], F16), ([B, N, T], F32), ([0], UI8)]"
    and s: "[B, N, T, H] = [2, 4, 8, 64]"
    by (auto simp: f16_value_def has_padding_def)
  have p: "perm = [0, 2, 1, 3]"
    using l
    by (auto simp: dot_product_attention_fwd_cuda_lowering_def f16_value_def and_then_def
        Let_def split: sum.splits)
  have "call_target_name call = ''__cudnn$fmhaScaleBiasSoftmax''"
    using n by (simp add: get_custom_call_name_def custom_name_maps_def)
  then show ?thesis
    using h1 h3 l o r s p by auto
qed

subsection \<open>Batching rule\<close>

lemmas batcher_eval =
  dot_product_attention_fwd_batcher_def dot_product_attention_fwd_batcher_bind_def
  check_valid_batch_dims_def nth_or_raise_def unpack_star3_def reshape_def
  dot_product_attention_fwd_abstract_def fwd_param_names_def

text \<open>The call bound by the batching rule never carries \<open>sliding_window_length\<close>.\<close>

lemma batcher_bind_params:
  assumes "dot_product_attention_fwd_batcher_bind batched_args batch_dims scale seed
     dropout_rate variadic_args mask_type layout sliding_window_length is_training = Inr call"
  shows "map_of (params call) ''sliding_window_length'' = None"
  using assms
  by (auto simp: dot_product_attention_fwd_batcher_bind_def and_then_Inr_iff Let_def
      split: list.splits prod.splits if_splits)

text \<open>So no input makes the batching rule return outputs.\<close>

lemma batcher_never_returns:
  "dot_product_attention_fwd_batcher batched_args batch_dims scale seed
     dropout_rate variadic_args mask_type layout sliding_window_length is_training \<noteq> Inr r"
proof (cases "dot_product_attention_fwd_batcher_bind batched_args batch_dims
     scale seed dropout_rate variadic_args mask_type layout sliding_window_length is_training")
  case (Inl e)
  then show ?thesis
    by (simp add: dot_product_attention_fwd_batcher_def and_then_def)
next
  case (Inr call)
  have "dot_product_attention_fwd_abstract call
      = Inl (TypeError ''missing required keyword-only argument'')"
    using batcher_bind_params [OF Inr]
    by (simp add: dot_product_attention_fwd_abstract_def fwd_param_names_def)
  then show ?thesis
    using Inr
    by (simp add: dot_product_attention_fwd_batcher_def and_then_def Let_def
        split: sum.splits prod.splits)
qed

text \<open>
  C7. The claim asks the batching rule to dispatch the unbatched primitive with the same
  attention parameters, \<open>sliding_window_length\<close> among them. For three stacked examples of
  shape (2, 8, 4, 64) with \<open>sliding_window_length = 4\<close> the rule flattens the operands
  to batch 6, but binds the primitive without \<open>sliding_window_length\<close>, and the bind
  raises TypeError; the operator's own dispatch of one example carries the parameter and
  yields an output of the query's shape.
\<close>

theorem fwd_batcher_drops_sliding_window_length:
  "dot_product_attention_fwd_batcher_bind
     [f16 [3, 2, 8, 4, 64], f16 [3, 2, 8, 4, 64], f16 [3, 2, 8, 4, 64], f16 [0], f16 [0], f16 [0]]
     [Some 0, Some 0, Some 0, None, None, None] 1 42 0 (False, False) NO_MASK 0 (Some 4) False
   = Inr \<lparr>operands = [f16 [6, 8, 4, 64], f16 [6, 8, 4, 64], f16 [6, 8, 4, 64],
                      f16 [0], f16 [0], f16 [0]],
          params = [(''scale'', PFloat 1), (''seed'', PInt 42), (''dropout_rate'', PFloat 0),
                    (''variadic_args'', PTuple [PBool False, PBool False]),
                    (''mask_type'', PMaskType NO_MASK), (''layout'', PInt 0),
                    (''is_training'', PBool False)]\<rparr>
   \<and> dot_product_attention_fwd_batcher
     [f16 [3, 2, 8, 4, 64], f16 [3, 2, 8, 4, 64], f16 [3, 2, 8, 4, 64], f16 [0], f16 [0], f16 [0]]
     [Some 0, Some 0, Some 0, None, None, None] 1 42 0 (False, False) NO_MASK 0 (Some 4) False
   = Inl (TypeError ''missing required keyword-only argument'')
   \<and> and_then (dot_product_attention ampere_env (f16 [2, 8, 4, 64]) (f16 [2, 8, 4, 64])
        (f16 [2, 8, 4, 64]) None None None None 1 NO_MASK 42 0 ''BTNH'' (Some 4))
        dot_product_attention_fwd_abstract
   = Inr [f16 [2, 8, 4, 64]]"
  by (simp add: batcher_eval operator_eval)


subsection \<open>Sharding partitioner\<close>

lemma append3_eq:
  "rest @ [a, b, c] = rest' @ [a', b', c'] \<longleftrightarrow> rest = rest' \<and> a = a' \<and> b = b' \<and> c = c'"
  by (subst append_eq_append_conv) simp_all

lemma unpack_star3_append: "unpack_star3 (rest @ [a, b, c]) = Inr (rest, a, b, c)"
  by (simp add: unpack_star3_def)

lemma unpack_star3_cases:
  "(\<exists>rest a b c. xs = rest @ [a, b, c]) \<or> unpack_star3 xs = Inl (ValueError ''unpack'')"
proof (cases "rev xs")
  case Nil then show ?thesis by (simp add: unpack_star3_def)
next
  case (Cons c r1)
  show ?thesis
  proof (cases r1)
    case Nil with Cons show ?thesis by (simp add: unpack_star3_def)
  next
    case (Cons b r2)
    note c2 = this
    show ?thesis
    proof (cases r2)
      case Nil with c2 \<open>rev xs = c # r1\<close> show ?thesis by (simp add: unpack_star3_def)
    next
      case (Cons a r3)
      with c2 \<open>rev xs = c # r1\<close> have "rev xs = c # b # a # r3" by simp
      then have "xs = rev (c # b # a # r3)" by (metis rev_rev_ident)
      then have "xs = rev r3 @ [a, b, c]" by simp
      then show ?thesis by blast
    qed
  qed
qed

lemma unpack_star3_Inr:
  "unpack_star3 xs = Inr (rest, a, b, c) \<longleftrightarrow> xs = rest @ [a, b, c]"
  using unpack_star3_cases [of xs]
  by (auto simp: unpack_star3_append append3_eq)

lemma bias_check_iff:
  "and_then (unpack_star3 bs)
     (\<lambda>(bias_batch_spec, bias_num_head_spec, bias_q_seq_spec, bias_kv_seq_spec).
        if list_ex truthy bias_batch_spec \<and> bias_batch_spec \<noteq> batch \<or>
           bias_num_head_spec \<noteq> Unsharded \<and> bias_num_head_spec \<noteq> heads
        then Inl (ValueError m1)
        else if bias_q_seq_spec \<noteq> Unsharded \<or> bias_kv_seq_spec \<noteq> Unsharded
        then Inl (ValueError m2)
        else Inr ()) = Inr ()
   \<longleftrightarrow> (\<exists>bb bh. bs = bb @ [bh, Unsharded, Unsharded] \<and>
          (\<not> list_ex truthy bb \<or> bb = batch) \<and> (bh = Unsharded \<or> bh = heads))"
  using unpack_star3_cases [of bs]
proof
  assume "\<exists>rest a b c. bs = rest @ [a, b, c]"
  then obtain rest a b c where bs: "bs = rest @ [a, b, c]" by blast
  show ?thesis
    unfolding bs by (auto simp: unpack_star3_append and_then_def append3_eq)
next
  assume e: "unpack_star3 bs = Inl (ValueError ''unpack'')"
  have "bs \<noteq> bb @ [bh, Unsharded, Unsharded]" for bb bh
    using e by (auto simp: unpack_star3_append)
  then show ?thesis using e by (simp add: and_then_def)
qed

lemma check_spec_accepts_iff:
  "check_qkv_bias_mask_spec query_spec key_spec value_spec bias_spec = Inr () \<longleftrightarrow>
     key_spec = query_spec \<and> value_spec = query_spec \<and>
     (\<exists>batch heads.
        query_spec = batch @ [Unsharded, heads, Unsharded] \<and>
        (case bias_spec of
           None \<Rightarrow> True
         | Some bs \<Rightarrow>
             bs = [] \<or>
             (\<exists>bb bh. bs = bb @ [bh, Unsharded, Unsharded] \<and>
                (\<not> list_ex truthy bb \<or> bb = batch) \<and> (bh = Unsharded \<or> bh = heads))))"
  using unpack_star3_cases [of query_spec]
proof
  assume "\<exists>rest a b c. query_spec = rest @ [a, b, c]"
  then obtain rest a b c where q: "query_spec = rest @ [a, b, c]" by blast
  show ?thesis
  proof (cases bias_spec)
    case None
    then show ?thesis
      unfolding check_qkv_bias_mask_spec_def q
      by (auto simp: unpack_star3_append and_then_def append3_eq split: if_splits)
  next
    case (Some bs)
    show ?thesis
      unfolding check_qkv_bias_mask_spec_def q Some
      by (auto simp: unpack_star3_append and_then_def [of "Inr _"] append3_eq bias_check_iff
          split: if_splits)
  qed
next
  assume e: "unpack_star3 query_spec = Inl (ValueError ''unpack'')"
  have "query_spec \<noteq> batch @ [Unsharded, heads, Unsharded]" for batch heads
    using e by (auto simp: unpack_star3_append)
  then show ?thesis
    using e by (auto simp: check_qkv_bias_mask_spec_def and_then_def)
qed


lemma checked_specs_Inr:
  "checked_specs arg_shapes has_bias = Inr (qs, ks, bias_spec) \<longleftrightarrow>
     2 < length arg_shapes \<and> get_padded_spec (arg_shapes ! 0) = Inr qs \<and>
     get_padded_spec (arg_shapes ! 1) = Inr ks \<and>
     (\<exists>vs. get_padded_spec (arg_shapes ! 2) = Inr vs \<and>
           check_qkv_bias_mask_spec qs ks vs bias_spec = Inr ()) \<and>
     (if has_bias
      then \<exists>bs. 3 < length arg_shapes \<and> get_padded_spec (arg_shapes ! 3) = Inr bs \<and>
                bias_spec = Some bs
      else bias_spec = None)"
  unfolding checked_specs_def
  by (auto simp: and_then_Inr_iff nth_or_raise_def split: if_splits)

lemma infer_fwd_Inr:
  assumes "infer_fwd_output_sharding m arg_shapes variadic_args is_training = Inr outs"
  shows "\<exists>qs ks bias_spec.
           checked_specs arg_shapes (fst variadic_args) = Inr (qs, ks, bias_spec) \<and>
           hd outs = \<lparr>ns_mesh = m, spec = qs\<rparr> \<and>
           length outs = (if is_training then 2 else 1)"
  using assms unfolding infer_fwd_output_sharding_def
  by (auto simp: and_then_Inr_iff Let_def split: if_splits prod.splits)

lemma infer_bwd_Inr:
  assumes "infer_bwd_output_sharding m arg_shapes variadic_args = Inr outs"
  shows "\<exists>qs ks bias_spec.
           checked_specs arg_shapes (fst variadic_args) = Inr (qs, ks, bias_spec) \<and>
           take 3 outs = [\<lparr>ns_mesh = m, spec = qs\<rparr>, \<lparr>ns_mesh = m, spec = ks\<rparr>,
                          \<lparr>ns_mesh = m, spec = ks\<rparr>] \<and>
           (if snd variadic_args
            then \<exists>bs. bias_spec = Some bs \<and> drop 3 outs = [\<lparr>ns_mesh = m, spec = bs\<rparr>]
            else drop 3 outs = [])"
  using assms unfolding infer_bwd_output_sharding_def
  by (auto simp: and_then_Inr_iff Let_def split: if_splits prod.splits option.splits)

lemma sharded_impl_dbias:
  "sharded_impl psum impl (has_bias, True) (Some sh # shs) args =
     (case spec sh of
        [] \<Rightarrow> Inl IndexError
      | batch_label # _ \<Rightarrow>
          if length (impl args) < 4 then Inl IndexError
          else Inr (take 3 (impl args) @ [psum (impl args ! 3) batch_label]))"
  by (auto simp: sharded_impl_def Let_def nth_or_raise_def and_then_def split: list.splits)

lemma sharded_impl_no_dbias:
  "sharded_impl psum impl (has_bias, False) shs args = Inr (impl args)"
  by (simp add: sharded_impl_def Let_def)


lemma replicate_numeral_unfold:
  "replicate (numeral k) x = x # replicate (pred_numeral k) x"
  by (simp add: numeral_eq_Suc)

lemmas partition_eval = replicate_numeral_unfold
  dot_product_attention_bwd_partition_def dot_product_attention_fwd_partition_def
  infer_bwd_output_sharding_def infer_fwd_output_sharding_def checked_specs_def
  check_qkv_bias_mask_spec_def get_padded_spec_def nth_or_raise_def unpack_star3_def
  and_then_def Let_def example_mesh_def qkv_info_def replicated_info_def sharded_impl_def

text \<open>
  C2, as stated: the partitioner raises an error unless the bias's batch and head
  sharding matches the query's. With query, key and value sharded on batch (data) and
  heads (model) and a bias that is not sharded at all, the backward partition rule
  accepts and returns the output shardings.
\<close>

theorem bias_sharding_must_match_counterexample:
  "dot_product_attention_bwd_partition example_mesh
     [qkv_info, qkv_info, qkv_info, replicated_info 4, replicated_info 1, replicated_info 1,
      replicated_info 3, qkv_info, qkv_info] (True, True)
   = Inr (example_mesh,
          [\<lparr>ns_mesh = example_mesh,
             spec = [AxisName ''data'', Unsharded, AxisName ''model'', Unsharded]\<rparr>,
           \<lparr>ns_mesh = example_mesh,
             spec = [AxisName ''data'', Unsharded, AxisName ''model'', Unsharded]\<rparr>,
           \<lparr>ns_mesh = example_mesh,
             spec = [AxisName ''data'', Unsharded, AxisName ''model'', Unsharded]\<rparr>,
           \<lparr>ns_mesh = example_mesh, spec = [Unsharded, Unsharded, Unsharded, Unsharded]\<rparr>],
          map sharding
            [qkv_info, qkv_info, qkv_info, replicated_info 4, replicated_info 1,
             replicated_info 1, replicated_info 3, qkv_info, qkv_info])"
  by (simp add: partition_eval)

text \<open>
  C2, amended. The check accepts exactly when query, key and value have one padded
  specification whose third-last and last entries (sequence and head size in the layout
  that the partitioner assumes) are unsharded and, for a bias with a non-empty
  specification, the two sequence entries of the bias are unsharded, its batch entries are
  all without a name or equal the query's, and its head entry is unsharded or equals the
  query's. When the forward rule accepts, these checks hold and the first output sharding
  is the query's; when the backward rule accepts, the gradients of query, key and value
  get the specifications of query, key and key, followed by the bias's for \<open>has_dbias\<close>.
  With \<open>has_dbias\<close> the sharded implementation returns the first three gradients and
  the psum of the fourth over the first entry of the query's specification (IndexError when
  that specification is empty); without it the gradients are returned as they are.
\<close>

theorem partition_rule_spec:
  "(check_qkv_bias_mask_spec query_spec key_spec value_spec bias_spec = Inr () \<longleftrightarrow>
      key_spec = query_spec \<and> value_spec = query_spec \<and>
      (\<exists>batch heads.
         query_spec = batch @ [Unsharded, heads, Unsharded] \<and>
         (case bias_spec of
            None \<Rightarrow> True
          | Some bs \<Rightarrow>
              bs = [] \<or>
              (\<exists>bb bh. bs = bb @ [bh, Unsharded, Unsharded] \<and>
                 (\<not> list_ex truthy bb \<or> bb = batch) \<and> (bh = Unsharded \<or> bh = heads)))))
   \<and> (dot_product_attention_fwd_partition m arg_shapes variadic_args is_training
         = Inr (m', outs, shs) \<longrightarrow>
       (\<exists>qs ks vs bsp.
          get_padded_spec (arg_shapes ! 0) = Inr qs \<and>
          get_padded_spec (arg_shapes ! 1) = Inr ks \<and>
          get_padded_spec (arg_shapes ! 2) = Inr vs \<and>
          (if fst variadic_args
           then \<exists>bs. get_padded_spec (arg_shapes ! 3) = Inr bs \<and> bsp = Some bs
           else bsp = None) \<and>
          check_qkv_bias_mask_spec qs ks vs bsp = Inr () \<and>
          hd outs = \<lparr>ns_mesh = m, spec = qs\<rparr>))
   \<and> (dot_product_attention_bwd_partition m arg_shapes variadic_args
         = Inr (m', outs, shs) \<longrightarrow>
       (\<exists>qs ks vs bsp.
          get_padded_spec (arg_shapes ! 0) = Inr qs \<and>
          get_padded_spec (arg_shapes ! 1) = Inr ks \<and>
          get_padded_spec (arg_shapes ! 2) = Inr vs \<and>
          (if fst variadic_args
           then \<exists>bs. get_padded_spec (arg_shapes ! 3) = Inr bs \<and> bsp = Some bs
           else bsp = None) \<and>
          check_qkv_bias_mask_spec qs ks vs bsp = Inr () \<and>
          take 3 outs = [\<lparr>ns_mesh = m, spec = qs\<rparr>, \<lparr>ns_mesh = m, spec = ks\<rparr>,
                         \<lparr>ns_mesh = m, spec = ks\<rparr>] \<and>
          (if snd variadic_args
           then \<exists>bs. bsp = Some bs \<and> drop 3 outs = [\<lparr>ns_mesh = m, spec = bs\<rparr>]
           else drop 3 outs = []) \<and>
          shs = map sharding arg_shapes))
   \<and> sharded_impl psum impl (has_bias, True) (Some sh # rest) args =
       (case spec sh of
          [] \<Rightarrow> Inl IndexError
        | batch_label # _ \<Rightarrow>
            if length (impl args) < 4 then Inl IndexError
            else Inr (take 3 (impl args) @ [psum (impl args ! 3) batch_label]))
   \<and> sharded_impl psum impl (has_bias, False) rest args = Inr (impl args)"
proof (intro conjI impI)
  show "check_qkv_bias_mask_spec query_spec key_spec value_spec bias_spec = Inr () \<longleftrightarrow>
      key_spec = query_spec \<and> value_spec = query_spec \<and>
      (\<exists>batch heads.
         query_spec = batch @ [Unsharded, heads, Unsharded] \<and>
         (case bias_spec of
            None \<Rightarrow> True
          | Some bs \<Rightarrow>
              bs = [] \<or>
              (\<exists>bb bh. bs = bb @ [bh, Unsharded, Unsharded] \<and>
                 (\<not> list_ex truthy bb \<or> bb = batch) \<and> (bh = Unsharded \<or> bh = heads))))"
    by (rule check_spec_accepts_iff)
next
  assume "dot_product_attention_fwd_partition m arg_shapes variadic_args is_training
         = Inr (m', outs, shs)"
  then have "infer_fwd_output_sharding m arg_shapes variadic_args is_training = Inr outs"
    by (auto simp: dot_product_attention_fwd_partition_def Let_def and_then_Inr_iff)
  from infer_fwd_Inr [OF this] obtain qs ks bsp where
    "checked_specs arg_shapes (fst variadic_args) = Inr (qs, ks, bsp)"
    "hd outs = \<lparr>ns_mesh = m, spec = qs\<rparr>" by blast
  then show "\<exists>qs ks vs bsp.
          get_padded_spec (arg_shapes ! 0) = Inr qs \<and>
          get_padded_spec (arg_shapes ! 1) = Inr ks \<and>
          get_padded_spec (arg_shapes ! 2) = Inr vs \<and>
          (if fst variadic_args
           then \<exists>bs. get_padded_spec (arg_shapes ! 3) = Inr bs \<and> bsp = Some bs
           else bsp = None) \<and>
          check_qkv_bias_mask_spec qs ks vs bsp = Inr () \<and>
          hd outs = \<lparr>ns_mesh = m, spec = qs\<rparr>"
    unfolding checked_specs_Inr by (auto split: if_splits)
next
  assume "dot_product_attention_bwd_partition m arg_shapes variadic_args
         = Inr (m', outs, shs)"
  then have i: "infer_bwd_output_sharding m arg_shapes variadic_args = Inr outs"
    and s: "shs = map sharding arg_shapes"
    by (auto simp: dot_product_attention_bwd_partition_def Let_def and_then_Inr_iff)
  from infer_bwd_Inr [OF i] obtain qs ks bsp where
    c: "checked_specs arg_shapes (fst variadic_args) = Inr (qs, ks, bsp)"
    and t: "take 3 outs = [\<lparr>ns_mesh = m, spec = qs\<rparr>, \<lparr>ns_mesh = m, spec = ks\<rparr>,
                          \<lparr>ns_mesh = m, spec = ks\<rparr>]"
    and d: "if snd variadic_args
            then \<exists>bs. bsp = Some bs \<and> drop 3 outs = [\<lparr>ns_mesh = m, spec = bs\<rparr>]
            else drop 3 outs = []" by blast
  from c obtain vs where
    p: "get_padded_spec (arg_shapes ! 0) = Inr qs" "get_padded_spec (arg_shapes ! 1) = Inr ks"
       "get_padded_spec (arg_shapes ! 2) = Inr vs"
       "check_qkv_bias_mask_spec qs ks vs bsp = Inr ()"
       "if fst variadic_args
        then \<exists>bs. get_padded_spec (arg_shapes ! 3) = Inr bs \<and> bsp = Some bs
        else bsp = None"
    unfolding checked_specs_Inr by (auto split: if_splits)
  show "\<exists>qs ks vs bsp.
          get_padded_spec (arg_shapes ! 0) = Inr qs \<and>
          get_padded_spec (arg_shapes ! 1) = Inr ks \<and>
          get_padded_spec (arg_shapes ! 2) = Inr vs \<and>
          (if fst variadic_args
           then \<exists>bs. get_padded_spec (arg_shapes ! 3) = Inr bs \<and> bsp = Some bs
           else bsp = None) \<and>
          check_qkv_bias_mask_spec qs ks vs bsp = Inr () \<and>
          take 3 outs = [\<lparr>ns_mesh = m, spec = qs\<rparr>, \<lparr>ns_mesh = m, spec = ks\<rparr>,
                         \<lparr>ns_mesh = m, spec = ks\<rparr>] \<and>
          (if snd variadic_args
           then \<exists>bs. bsp = Some bs \<and> drop 3 outs = [\<lparr>ns_mesh = m, spec = bs\<rparr>]
           else drop 3 outs = []) \<and>
          shs = map sharding arg_shapes"
    using p t d s by blast
next
  show "sharded_impl psum impl (has_bias, True) (Some sh # rest) args =
       (case spec sh of
          [] \<Rightarrow> Inl IndexError
        | batch_label # _ \<Rightarrow>
            if length (impl args) < 4 then Inl IndexError
            else Inr (take 3 (impl args) @ [psum (impl args ! 3) batch_label]))"
    by (rule sharded_impl_dbias)
next
  show "sharded_impl psum impl (has_bias, False) rest args = Inr (impl args)"
    by (rule sharded_impl_no_dbias)
qed


theorem partition_rule_spec_witness:
  "dot_product_attention_fwd_partition example_mesh
     [qkv_info, qkv_info, qkv_info, replicated_info 4, replicated_info 1, replicated_info 1]
     (True, True) False
   = Inr (example_mesh,
          [\<lparr>ns_mesh = example_mesh,
             spec = [AxisName ''data'', Unsharded, AxisName ''model'', Unsharded]\<rparr>],
          map sharding
            [qkv_info, qkv_info, qkv_info, replicated_info 4, replicated_info 1,
             replicated_info 1])
   \<and> dot_product_attention_bwd_partition example_mesh
     [qkv_info, qkv_info, qkv_info, replicated_info 4, replicated_info 1, replicated_info 1]
     (True, False)
   = Inr (example_mesh,
          [\<lparr>ns_mesh = example_mesh,
             spec = [AxisName ''data'', Unsharded, AxisName ''model'', Unsharded]\<rparr>,
           \<lparr>ns_mesh = example_mesh,
             spec = [AxisName ''data'', Unsharded, AxisName ''model'', Unsharded]\<rparr>,
           \<lparr>ns_mesh = example_mesh,
             spec = [AxisName ''data'', Unsharded, AxisName ''model'', Unsharded]\<rparr>],
          map sharding
            [qkv_info, qkv_info, qkv_info, replicated_info 4, replicated_info 1,
             replicated_info 1])
   \<and> sharded_impl (\<lambda>g l. 2 * g) (\<lambda>xs. xs) (True, True)
        (Some \<lparr>ns_mesh = example_mesh,
               spec = [AxisName ''data'', Unsharded, AxisName ''model'']\<rparr> # [])
        [1, 2, 3, 4 :: nat]
      = Inr [1, 2, 3, 8]"
  using partition_rule_spec [where m = example_mesh
      and arg_shapes = "[qkv_info, qkv_info, qkv_info, replicated_info 4, replicated_info 1,
                         replicated_info 1]"
      and variadic_args = "(True, True)" and is_training = False and m' = example_mesh
      and outs = "[\<lparr>ns_mesh = example_mesh,
             spec = [AxisName ''data'', Unsharded, AxisName ''model'', Unsharded]\<rparr>]"
      and shs = "map sharding [qkv_info, qkv_info, qkv_info, replicated_info 4,
                               replicated_info 1, replicated_info 1]"
      and psum = "\<lambda>g l. 2 * g" and impl = "\<lambda>xs. xs" and has_bias = True
      and sh = "\<lparr>ns_mesh = example_mesh,
               spec = [AxisName ''data'', Unsharded, AxisName ''model'']\<rparr>"
      and rest = "[]" and args = "[1, 2, 3, 4 :: nat]"]
    partition_rule_spec [where m = example_mesh
      and arg_shapes = "[qkv_info, qkv_info, qkv_info, replicated_info 4, replicated_info 1,
                         replicated_info 1]"
      and variadic_args = "(True, False)" and m' = example_mesh
      and outs = "[\<lparr>ns_mesh = example_mesh,
             spec = [AxisName ''data'', Unsharded, AxisName ''model'', Unsharded]\<rparr>,
           \<lparr>ns_mesh = example_mesh,
             spec = [AxisName ''data'', Unsharded, AxisName ''model'', Unsharded]\<rparr>,
           \<lparr>ns_mesh = example_mesh,
             spec = [AxisName ''data'', Unsharded, AxisName ''model'', Unsharded]\<rparr>]"
      and shs = "map sharding [qkv_info, qkv_info, qkv_info, replicated_info 4,
                               replicated_info 1, replicated_info 1]"
      and psum = "\<lambda>g l. 2 * g" and impl = "\<lambda>xs. xs" and has_bias = True
      and sh = "\<lparr>ns_mesh = example_mesh,
               spec = [AxisName ''data'', Unsharded, AxisName ''model'']\<rparr>"
      and rest = "[]" and args = "[1, 2, 3, 4 :: nat]"]
  by (simp add: partition_eval)

end
